theory Spec2Isabelle
  imports Complex_Main
begin

section \<open>JavaScript dates\<close>

text \<open>
  A JavaScript \<^verbatim>\<open>Date\<close> is a time value: the number of milliseconds since
  1 January 1970. The functions below are the abstract operations of the ECMAScript
  language specification (Day, TimeWithinDay, DayFromYear, YearFromTime, MonthFromTime,
  DateFromTime, MakeDay, MakeDate), on which the methods \<^verbatim>\<open>getDate\<close>,
  \<^verbatim>\<open>setDate\<close>, \<^verbatim>\<open>setMonth\<close> and the others are built.
  The server's local time zone is taken to be UTC, so local time and time value agree, and
  every date is taken to lie in the range where \<^verbatim>\<open>TimeClip\<close> is the identity.
\<close>

definition msPerDay :: int where
  "msPerDay = 86400000"

definition Day :: "int \<Rightarrow> int" where
  "Day t = t div msPerDay"

definition TimeWithinDay :: "int \<Rightarrow> int" where
  "TimeWithinDay t = t mod msPerDay"

definition DaysInYear :: "int \<Rightarrow> int" where
  "DaysInYear y =
     (if y mod 4 \<noteq> 0 then 365
      else if y mod 100 \<noteq> 0 then 366
      else if y mod 400 \<noteq> 0 then 365
      else 366)"

definition DayFromYear :: "int \<Rightarrow> int" where
  "DayFromYear y =
     365 * (y - 1970) + (y - 1969) div 4 - (y - 1901) div 100 + (y - 1601) div 400"

text \<open>
  ECMAScript defines YearFromTime as the largest year whose first day is not after the
  given time. The estimate \<open>1970 + 400 * d div 146097\<close> (146097 days make 400 years)
  is off by at most one year, which the two comparisons repair.
\<close>

definition YearFromTime :: "int \<Rightarrow> int" where
  "YearFromTime t =
     (let d = Day t; y = 1970 + (400 * d) div 146097 in
      if DayFromYear (y + 1) \<le> d then y + 1
      else if DayFromYear y \<le> d then y
      else y - 1)"

definition InLeapYear :: "int \<Rightarrow> int" where
  "InLeapYear t = (if DaysInYear (YearFromTime t) = 366 then 1 else 0)"

definition DayWithinYear :: "int \<Rightarrow> int" where
  "DayWithinYear t = Day t - DayFromYear (YearFromTime t)"

definition MonthFromTime :: "int \<Rightarrow> int" where
  "MonthFromTime t =
     (let d = DayWithinYear t; l = InLeapYear t in
      if d < 31 then 0
      else if d < 59 + l then 1
      else if d < 90 + l then 2
      else if d < 120 + l then 3
      else if d < 151 + l then 4
      else if d < 181 + l then 5
      else if d < 212 + l then 6
      else if d < 243 + l then 7
      else if d < 273 + l then 8
      else if d < 304 + l then 9
      else if d < 334 + l then 10
      else 11)"

definition DateFromTime :: "int \<Rightarrow> int" where
  "DateFromTime t =
     (let d = DayWithinYear t; l = InLeapYear t; m = MonthFromTime t in
      if m = 0 then d + 1
      else if m = 1 then d - 30
      else if m = 2 then d - 58 - l
      else if m = 3 then d - 89 - l
      else if m = 4 then d - 119 - l
      else if m = 5 then d - 150 - l
      else if m = 6 then d - 180 - l
      else if m = 7 then d - 211 - l
      else if m = 8 then d - 242 - l
      else if m = 9 then d - 272 - l
      else if m = 10 then d - 303 - l
      else d - 333 - l)"

text \<open>The day within the year on which month \<open>mn\<close> (0 to 11) starts.\<close>

definition monthStart :: "int \<Rightarrow> int \<Rightarrow> int" where
  "monthStart mn l =
     (if mn = 0 then 0
      else if mn = 1 then 31
      else if mn = 2 then 59 + l
      else if mn = 3 then 90 + l
      else if mn = 4 then 120 + l
      else if mn = 5 then 151 + l
      else if mn = 6 then 181 + l
      else if mn = 7 then 212 + l
      else if mn = 8 then 243 + l
      else if mn = 9 then 273 + l
      else if mn = 10 then 304 + l
      else 334 + l)"

text \<open>
  MakeDay: the month may lie outside 0 to 11 and the date outside the month; the year is
  adjusted by whole twelves of months, and the date is counted on from the first of the
  month, into the following months or back into the preceding ones.
\<close>

definition MakeDay :: "int \<Rightarrow> int \<Rightarrow> int \<Rightarrow> int" where
  "MakeDay year month date =
     (let ym = year + month div 12; mn = month mod 12 in
      DayFromYear ym + monthStart mn (if DaysInYear ym = 366 then 1 else 0) + date - 1)"

definition MakeDate :: "int \<Rightarrow> int \<Rightarrow> int" where
  "MakeDate day time = day * msPerDay + time"

definition getFullYear :: "int \<Rightarrow> int" where
  "getFullYear t = YearFromTime t"

definition getMonth :: "int \<Rightarrow> int" where
  "getMonth t = MonthFromTime t"

definition getDate :: "int \<Rightarrow> int" where
  "getDate t = DateFromTime t"

definition setDate :: "int \<Rightarrow> int \<Rightarrow> int" where
  "setDate t dt = MakeDate (MakeDay (YearFromTime t) (MonthFromTime t) dt) (TimeWithinDay t)"

definition setMonth :: "int \<Rightarrow> int \<Rightarrow> int" where
  "setMonth t m = MakeDate (MakeDay (YearFromTime t) m (DateFromTime t)) (TimeWithinDay t)"

definition setFullYear :: "int \<Rightarrow> int \<Rightarrow> int" where
  "setFullYear t y = MakeDate (MakeDay y (MonthFromTime t) (DateFromTime t)) (TimeWithinDay t)"

text \<open>
  The constructor \<^verbatim>\<open>new Date(year, month, date)\<close>: midnight of that day; a year
  from 0 to 99 stands for 1900 to 1999.
\<close>

definition newDate :: "int \<Rightarrow> int \<Rightarrow> int \<Rightarrow> int" where
  "newDate y m d =
     MakeDate (MakeDay (if 0 \<le> y \<and> y \<le> 99 then 1900 + y else y) m d) 0"

section \<open>Strings\<close>

text \<open>
  \<^verbatim>\<open>String.prototype.trim\<close>, which Mongoose applies to every path declared with
  \<^verbatim>\<open>trim: true\<close>. Characters are taken from the first 256 code points.
\<close>

definition isWhiteSpace :: "char \<Rightarrow> bool" where
  "isWhiteSpace c =
     (c \<in> set [CHR 0x09, CHR 0x0A, CHR 0x0B, CHR 0x0C, CHR 0x0D, CHR 0x20, CHR 0xA0])"

definition trim :: "string \<Rightarrow> string" where
  "trim s = rev (dropWhile isWhiteSpace (rev (dropWhile isWhiteSpace s)))"

section \<open>Floating-point numbers\<close>

text \<open>
  A JavaScript number is a double-precision floating-point number, and so is the number
  that the database holds for a balance. Every addition and subtraction of the ledger
  answers the double that is nearest to the exact result: the result is rounded to 53
  significant bits, a tie going to the even neighbour. The exponent is not bounded here, so
  overflow and the subnormal numbers are outside the model.
\<close>

definition roundHalfEven :: "real \<Rightarrow> int" where
  "roundHalfEven x =
     (let f = \<lfloor>x\<rfloor>; r = x - of_int f in
      if r < 1 / 2 then f
      else if 1 / 2 < r then f + 1
      else if even f then f
      else f + 1)"

definition roundDouble :: "real \<Rightarrow> real" where
  "roundDouble x =
     (if x = 0 then 0
      else
        (let ulp = 2 powr (of_int \<lfloor>log 2 \<bar>x\<bar>\<rfloor> - 52)
         in of_int (roundHalfEven (x / ulp)) * ulp))"

section \<open>The data model\<close>

datatype txn_type = Income | Expense | Transfer | Investment

datatype payment_mode = Cash | Upi | Card | BankTransfer | Other

datatype account_status = Active | Locked

datatype frequency = Daily | Weekly | Biweekly | Monthly | Quarterly | Yearly

text \<open>
  Object ids and users are natural numbers, JavaScript numbers that hold money are reals
  (the doubles among them), counters and time values are integers. Of an account only the
  fields the ledger operations read or write are kept.
\<close>

record account =
  a_userId :: nat
  balance :: real
  status :: account_status

record transaction =
  userId :: nat
  txType :: txn_type
  fromAccount :: "nat option"
  toAccount :: "nat option"
  amount :: real
  category :: string
  paymentMode :: payment_mode
  txNote :: "string option"
  conversionRate :: "real option"
  convertedAmount :: "real option"
  fromCurrency :: "string option"
  toCurrency :: "string option"
  transactionDate :: int
  tags :: "nat list"
  wasEdited :: bool
  createdAt :: int

record transactionLog =
  l_transactionId :: nat
  l_userId :: nat
  oldData :: transaction
  newData :: transaction
  modifiedAt :: int
  reason :: string

record budget =
  bg_userId :: nat
  bg_category :: string
  bg_month :: int
  bg_year :: int
  currentSpent :: real

record recurring =
  r_userId :: nat
  r_name :: string
  r_type :: txn_type
  r_fromAccount :: "nat option"
  r_toAccount :: "nat option"
  r_amount :: real
  r_category :: string
  r_paymentMode :: payment_mode
  r_note :: "string option"
  frequency :: frequency
  dayOfMonth :: "int option"
  endDate :: "int option"
  nextRunDate :: int
  lastRunDate :: "int option"
  isActive :: bool
  isPaused :: bool
  totalExecutions :: int
  maxExecutions :: "int option"
  r_tags :: "nat list"

text \<open>The collections of the database.\<close>

record db =
  transactions :: "nat \<rightharpoonup> transaction"
  accounts :: "nat \<rightharpoonup> account"
  budgets :: "budget list"
  logs :: "transactionLog list"
  recurrings :: "nat \<rightharpoonup> recurring"

text \<open>
  What a request handler hands to the caller instead of a result: a response with an error
  status, or an exception passed to \<^verbatim>\<open>next(err)\<close>.
\<close>

datatype error =
    SourceAccountNotFound
  | SourceAccountLocked
  | DestinationAccountNotFound
  | InsufficientBalance
  | TransactionNotFound
  | ReasonRequired
  | RecurringNotFound
  | ValidationFailed
  | DuplicateKey
  | NullDereference

section \<open>The recurring schedule\<close>

text \<open>
  \<^verbatim>\<open>calculateNextRunDate\<close> of the RecurringTransaction model. The test
  \<^verbatim>\<open>if (this.dayOfMonth)\<close> fails for null and for 0.
\<close>

definition calculateNextRunDate :: "recurring \<Rightarrow> int" where
  "calculateNextRunDate r =
     (let nextDate = nextRunDate r in
      case frequency r of
        Daily \<Rightarrow> setDate nextDate (getDate nextDate + 1)
      | Weekly \<Rightarrow> setDate nextDate (getDate nextDate + 7)
      | Biweekly \<Rightarrow> setDate nextDate (getDate nextDate + 14)
      | Monthly \<Rightarrow>
          (let nextDate = setMonth nextDate (getMonth nextDate + 1) in
           case dayOfMonth r of
             None \<Rightarrow> nextDate
           | Some dm \<Rightarrow>
               if dm = 0 then nextDate
               else
                 (let lastDayOfMonth =
                        getDate (newDate (getFullYear nextDate) (getMonth nextDate + 1) 0)
                  in setDate nextDate (min dm lastDayOfMonth)))
      | Quarterly \<Rightarrow> setMonth nextDate (getMonth nextDate + 3)
      | Yearly \<Rightarrow> setFullYear nextDate (getFullYear nextDate + 1))"

text \<open>
  \<^verbatim>\<open>shouldExecute\<close>; \<open>now\<close> is the clock, read as one instant. A date object is
  always truthy, a number is truthy unless it is 0.
\<close>

definition shouldExecute :: "int \<Rightarrow> recurring \<Rightarrow> bool" where
  "shouldExecute now r =
     (if \<not> isActive r \<or> isPaused r then False
      else if (case endDate r of None \<Rightarrow> False | Some e \<Rightarrow> now > e) then False
      else if (case maxExecutions r of
                 None \<Rightarrow> False
               | Some m \<Rightarrow> m \<noteq> 0 \<and> totalExecutions r \<ge> m) then False
      else now \<ge> nextRunDate r)"

section \<open>Collections\<close>

text \<open>
  \<^verbatim>\<open>Account.findOne({ _id, userId })\<close>: the account with that id, if the user owns it.
\<close>

definition Account_findOne :: "db \<Rightarrow> nat \<Rightarrow> nat \<Rightarrow> account option" where
  "Account_findOne d a user =
     (case accounts d a of
        None \<Rightarrow> None
      | Some acc \<Rightarrow> if a_userId acc = user then Some acc else None)"

text \<open>
  \<^verbatim>\<open>Account.findById(id)\<close>; the id may be null, and then no account is found.
\<close>

definition Account_findById :: "db \<Rightarrow> nat option \<Rightarrow> account option" where
  "Account_findById d i = (case i of None \<Rightarrow> None | Some a \<Rightarrow> accounts d a)"

text \<open>
  \<^verbatim>\<open>Account.findByIdAndUpdate(id, { $inc: { balance: delta } })\<close>: an atomic
  increment with no validator run: the balance becomes the double nearest to the sum. It
  does nothing when the id is null or matches no account.
\<close>

definition Account_incBalance :: "nat option \<Rightarrow> real \<Rightarrow> db \<Rightarrow> db" where
  "Account_incBalance i delta d =
     (case Account_findById d i of
        None \<Rightarrow> d
      | Some acc \<Rightarrow>
          d\<lparr>accounts :=
              (accounts d)(the i \<mapsto> acc\<lparr>balance := roundDouble (balance acc + delta)\<rparr>)\<rparr>)"

text \<open>
  \<^verbatim>\<open>Budget.findOneAndUpdate({ userId, category, month, year }, { $inc: { currentSpent } })\<close>:
  the first budget that matches is incremented; no match is not an error. The category of
  the filter is cast by the Budget schema, which trims it. The Budget model is used through
  these five paths only.
\<close>

fun incFirstBudget :: "(budget \<Rightarrow> bool) \<Rightarrow> real \<Rightarrow> budget list \<Rightarrow> budget list" where
  "incFirstBudget p delta [] = []"
| "incFirstBudget p delta (b # bs) =
     (if p b then b\<lparr>currentSpent := roundDouble (currentSpent b + delta)\<rparr> # bs
      else b # incFirstBudget p delta bs)"

definition Budget_incSpent :: "nat \<Rightarrow> string \<Rightarrow> int \<Rightarrow> real \<Rightarrow> db \<Rightarrow> db" where
  "Budget_incSpent user cat now delta d =
     d\<lparr>budgets :=
         incFirstBudget
           (\<lambda>b. bg_userId b = user \<and> bg_category b = trim cat \<and>
                bg_month b = getMonth now + 1 \<and> bg_year b = getFullYear now)
           delta (budgets d)\<rparr>"

text \<open>
  The validators of the Transaction schema: amount at least 0.01, category required (after
  trimming), note of at most 500 characters (after trimming). The enumerated paths are
  valid by their types.
\<close>

definition validTransaction :: "transaction \<Rightarrow> bool" where
  "validTransaction t =
     (1 / 100 \<le> amount t \<and> category t \<noteq> [] \<and>
      (case txNote t of None \<Rightarrow> True | Some n \<Rightarrow> length n \<le> 500))"

text \<open>The setters of the Transaction schema: category and note are trimmed.\<close>

definition applySetters :: "transaction \<Rightarrow> transaction" where
  "applySetters doc =
     doc\<lparr>category := trim (category doc), txNote := map_option trim (txNote doc)\<rparr>"

text \<open>
  \<^verbatim>\<open>Transaction.create(doc)\<close> with the object id \<open>oid\<close> generated for the document:
  setters, then validation, then the insert, which a document of the same id refuses.
\<close>

definition Transaction_create :: "db \<Rightarrow> nat \<Rightarrow> transaction \<Rightarrow> error + transaction \<times> db" where
  "Transaction_create d oid doc =
     (let t = applySetters doc in
      if \<not> validTransaction t then Inl ValidationFailed
      else if transactions d oid \<noteq> None then Inl DuplicateKey
      else Inr (t, d\<lparr>transactions := (transactions d)(oid \<mapsto> t)\<rparr>))"

definition Transaction_findByIdAndDelete :: "nat \<Rightarrow> db \<Rightarrow> db" where
  "Transaction_findByIdAndDelete oid d = d\<lparr>transactions := (transactions d)(oid := None)\<rparr>"

section \<open>Creating a transaction\<close>

text \<open>
  The body of a creation request, after the empty string and undefined have been turned
  into null for the two account fields. The required paths type, amount and category are
  present.
\<close>

record create_body =
  b_type :: txn_type
  b_fromAccount :: "nat option"
  b_toAccount :: "nat option"
  b_amount :: real
  b_category :: string
  b_paymentMode :: "payment_mode option"
  b_note :: "string option"
  b_conversionRate :: "real option"
  b_convertedAmount :: "real option"
  b_fromCurrency :: "string option"
  b_toCurrency :: "string option"
  b_transactionDate :: "int option"
  b_tags :: "nat list"

text \<open>The document that the schema builds from the body, with its defaults.\<close>

definition documentOf :: "int \<Rightarrow> nat \<Rightarrow> create_body \<Rightarrow> transaction" where
  "documentOf now user body =
     \<lparr>userId = user, txType = b_type body,
      fromAccount = b_fromAccount body, toAccount = b_toAccount body,
      amount = b_amount body, category = b_category body,
      paymentMode = (case b_paymentMode body of None \<Rightarrow> Cash | Some m \<Rightarrow> m),
      txNote = b_note body,
      conversionRate = b_conversionRate body, convertedAmount = b_convertedAmount body,
      fromCurrency = b_fromCurrency body, toCurrency = b_toCurrency body,
      transactionDate = (case b_transactionDate body of None \<Rightarrow> now | Some t \<Rightarrow> t),
      tags = b_tags body, wasEdited = False, createdAt = now\<rparr>"

text \<open>
  \<^verbatim>\<open>req.body.convertedAmount || amount\<close>: the converted amount unless it is null or 0.
\<close>

definition amountToAdd :: "create_body \<Rightarrow> real" where
  "amountToAdd body =
     (case b_convertedAmount body of
        None \<Rightarrow> b_amount body
      | Some c \<Rightarrow> if c = 0 then b_amount body else c)"

text \<open>
  The balance updates of \<^verbatim>\<open>createTransaction\<close>, run after the transaction \<open>oid\<close> has
  been stored. Reading the balance of an account that \<^verbatim>\<open>findById\<close> did not find
  throws.
\<close>

definition applyCreate :: "nat \<Rightarrow> int \<Rightarrow> nat \<Rightarrow> create_body \<Rightarrow> db \<Rightarrow> error option \<times> db" where
  "applyCreate oid now user body d =
     (case b_type body of
        Income \<Rightarrow> (None, Account_incBalance (b_toAccount body) (b_amount body) d)
      | Expense \<Rightarrow>
          (case Account_findById d (b_fromAccount body) of
             None \<Rightarrow> (Some NullDereference, d)
           | Some expenseAcc \<Rightarrow>
               if balance expenseAcc < b_amount body
               then (Some InsufficientBalance, Transaction_findByIdAndDelete oid d)
               else (None,
                     Budget_incSpent user (b_category body) now (b_amount body)
                       (Account_incBalance (b_fromAccount body) (- b_amount body) d)))
      | Transfer \<Rightarrow>
          (case Account_findById d (b_fromAccount body) of
             None \<Rightarrow> (Some NullDereference, d)
           | Some fromAcc \<Rightarrow>
               if balance fromAcc < b_amount body
               then (Some InsufficientBalance, Transaction_findByIdAndDelete oid d)
               else (None,
                     Account_incBalance (b_toAccount body) (amountToAdd body)
                       (Account_incBalance (b_fromAccount body) (- b_amount body) d)))
      | Investment \<Rightarrow>
          (case Account_findById d (b_fromAccount body) of
             None \<Rightarrow> (Some NullDereference, d)
           | Some invAcc \<Rightarrow>
               if balance invAcc < b_amount body
               then (Some InsufficientBalance, Transaction_findByIdAndDelete oid d)
               else (None, Account_incBalance (b_fromAccount body) (- b_amount body) d)))"

text \<open>
  The account checks that \<^verbatim>\<open>createTransaction\<close> makes before it stores anything.
\<close>

definition checkAccounts :: "db \<Rightarrow> nat \<Rightarrow> create_body \<Rightarrow> error option" where
  "checkAccounts d user body =
     (case (case b_fromAccount body of
              None \<Rightarrow> None
            | Some a \<Rightarrow>
                (case Account_findOne d a user of
                   None \<Rightarrow> Some SourceAccountNotFound
                 | Some fromAcc \<Rightarrow>
                     if status fromAcc = Locked then Some SourceAccountLocked else None)) of
        Some e \<Rightarrow> Some e
      | None \<Rightarrow>
          (case b_toAccount body of
             None \<Rightarrow> None
           | Some a \<Rightarrow>
               (case Account_findOne d a user of
                  None \<Rightarrow> Some DestinationAccountNotFound
                | Some toAcc \<Rightarrow> None)))"

text \<open>
  \<^verbatim>\<open>createTransaction\<close>: the response (an error, or the transaction read back from
  the ledger) and the database the request leaves behind.
\<close>

definition createTransaction ::
  "db \<Rightarrow> nat \<Rightarrow> int \<Rightarrow> nat \<Rightarrow> create_body \<Rightarrow> (error + transaction option) \<times> db" where
  "createTransaction d oid now user body =
     (case checkAccounts d user body of
        Some e \<Rightarrow> (Inl e, d)
      | None \<Rightarrow>
          (case Transaction_create d oid (documentOf now user body) of
             Inl e \<Rightarrow> (Inl e, d)
           | Inr (t, d1) \<Rightarrow>
               (case applyCreate oid now user body d1 of
                  (Some e, d2) \<Rightarrow> (Inl e, d2)
                | (None, d2) \<Rightarrow> (Inr (transactions d2 oid), d2))))"

section \<open>Amending a transaction\<close>

text \<open>
  The body of an update request: the reason and the fields that may be changed, each
  undefined (\<open>None\<close>) or given.
\<close>

record update_body =
  u_reason :: "string option"
  u_amount :: "real option"
  u_category :: "string option"
  u_paymentMode :: "payment_mode option"
  u_note :: "string option"
  u_transactionDate :: "int option"
  u_tags :: "nat list option"

text \<open>\<^verbatim>\<open>Transaction.findOne({ _id, userId })\<close>.\<close>

definition Transaction_findOne :: "db \<Rightarrow> nat \<Rightarrow> nat \<Rightarrow> transaction option" where
  "Transaction_findOne d i user =
     (case transactions d i of
        None \<Rightarrow> None
      | Some t \<Rightarrow> if userId t = user then Some t else None)"

text \<open>
  The update validators that \<^verbatim>\<open>runValidators: true\<close> runs on the paths of the update.
\<close>

definition validUpdate :: "update_body \<Rightarrow> bool" where
  "validUpdate body =
     ((case u_amount body of None \<Rightarrow> True | Some a \<Rightarrow> 1 / 100 \<le> a) \<and>
      (case u_category body of None \<Rightarrow> True | Some c \<Rightarrow> trim c \<noteq> []) \<and>
      (case u_note body of None \<Rightarrow> True | Some n \<Rightarrow> length (trim n) \<le> 500))"

text \<open>
  The update document: \<^verbatim>\<open>wasEdited: true\<close> and every allowed field that the body gives.
\<close>

definition applyUpdates :: "update_body \<Rightarrow> transaction \<Rightarrow> transaction" where
  "applyUpdates body t =
     t\<lparr>amount := (case u_amount body of None \<Rightarrow> amount t | Some a \<Rightarrow> a),
       category := (case u_category body of None \<Rightarrow> category t | Some c \<Rightarrow> trim c),
       paymentMode := (case u_paymentMode body of None \<Rightarrow> paymentMode t | Some m \<Rightarrow> m),
       txNote := (case u_note body of None \<Rightarrow> txNote t | Some n \<Rightarrow> Some (trim n)),
       transactionDate :=
         (case u_transactionDate body of None \<Rightarrow> transactionDate t | Some x \<Rightarrow> x),
       tags := (case u_tags body of None \<Rightarrow> tags t | Some ts \<Rightarrow> ts),
       wasEdited := True\<rparr>"

text \<open>
  \<^verbatim>\<open>Transaction.findByIdAndUpdate(id, updates, { new: true, runValidators: true })\<close>.
\<close>

definition Transaction_findByIdAndUpdate ::
  "nat \<Rightarrow> update_body \<Rightarrow> db \<Rightarrow> error + transaction option \<times> db" where
  "Transaction_findByIdAndUpdate i body d =
     (if \<not> validUpdate body then Inl ValidationFailed
      else
        (case transactions d i of
           None \<Rightarrow> Inr (None, d)
         | Some t \<Rightarrow>
             Inr (Some (applyUpdates body t),
                  d\<lparr>transactions := (transactions d)(i \<mapsto> applyUpdates body t)\<rparr>)))"

text \<open>
  \<^verbatim>\<open>TransactionLog.create\<close>: the reason is trimmed, must not be empty and has at most
  300 characters.
\<close>

definition TransactionLog_create :: "transactionLog \<Rightarrow> db \<Rightarrow> error + db" where
  "TransactionLog_create l d =
     (let l' = l\<lparr>reason := trim (reason l)\<rparr> in
      if reason l' = [] \<or> 300 < length (reason l') then Inl ValidationFailed
      else Inr (d\<lparr>logs := logs d @ [l']\<rparr>))"

text \<open>
  The balance adjustment of \<^verbatim>\<open>updateTransaction\<close>, made when the body gives an
  amount that is not 0 and differs from the stored one.
\<close>

definition adjustBalances :: "transaction \<Rightarrow> update_body \<Rightarrow> db \<Rightarrow> error option \<times> db" where
  "adjustBalances t body d =
     (case u_amount body of
        None \<Rightarrow> (None, d)
      | Some a \<Rightarrow>
          if a = 0 \<or> a = amount t then (None, d)
          else
            (let difference = roundDouble (a - amount t) in
             case txType t of
               Income \<Rightarrow> (None, Account_incBalance (toAccount t) difference d)
             | Expense \<Rightarrow>
                 (case Account_findById d (fromAccount t) of
                    None \<Rightarrow> (Some NullDereference, d)
                  | Some expenseAcc \<Rightarrow>
                      if balance expenseAcc < difference then (Some InsufficientBalance, d)
                      else (None, Account_incBalance (fromAccount t) (- difference) d))
             | Transfer \<Rightarrow> (None, d)
             | Investment \<Rightarrow> (None, d)))"

text \<open>
  \<^verbatim>\<open>updateTransaction\<close>. The test \<^verbatim>\<open>!req.body.reason\<close> holds for an undefined
  and for an empty reason.
\<close>

definition updateTransaction ::
  "db \<Rightarrow> int \<Rightarrow> nat \<Rightarrow> nat \<Rightarrow> update_body \<Rightarrow> (error + transaction option) \<times> db" where
  "updateTransaction d now user i body =
     (case Transaction_findOne d i user of
        None \<Rightarrow> (Inl TransactionNotFound, d)
      | Some t \<Rightarrow>
          (case u_reason body of
             None \<Rightarrow> (Inl ReasonRequired, d)
           | Some rsn \<Rightarrow>
               if rsn = [] then (Inl ReasonRequired, d)
               else
                 (case adjustBalances t body d of
                    (Some e, d1) \<Rightarrow> (Inl e, d1)
                  | (None, d1) \<Rightarrow>
                      (case Transaction_findByIdAndUpdate i body d1 of
                         Inl e \<Rightarrow> (Inl e, d1)
                       | Inr (None, d2) \<Rightarrow> (Inl NullDereference, d2)
                       | Inr (Some t', d2) \<Rightarrow>
                           (case TransactionLog_create
                                   \<lparr>l_transactionId = i, l_userId = user, oldData = t,
                                    newData = t', modifiedAt = now, reason = rsn\<rparr> d2 of
                              Inl e \<Rightarrow> (Inl e, d2)
                            | Inr d3 \<Rightarrow> (Inr (transactions d3 i), d3))))))"

section \<open>Executing a recurring definition\<close>

text \<open>\<^verbatim>\<open>RecurringTransaction.findOne({ _id, userId })\<close>.\<close>

definition Recurring_findOne :: "db \<Rightarrow> nat \<Rightarrow> nat \<Rightarrow> recurring option" where
  "Recurring_findOne d i user =
     (case recurrings d i of
        None \<Rightarrow> None
      | Some r \<Rightarrow> if r_userId r = user then Some r else None)"

text \<open>The transaction data that \<^verbatim>\<open>executeNow\<close> builds from the definition.\<close>

definition transactionData :: "int \<Rightarrow> nat \<Rightarrow> recurring \<Rightarrow> transaction" where
  "transactionData now user r =
     \<lparr>userId = user, txType = r_type r,
      fromAccount = r_fromAccount r, toAccount = r_toAccount r,
      amount = r_amount r, category = r_category r, paymentMode = r_paymentMode r,
      txNote =
        Some (trim (''[Auto: '' @ r_name r @ ''] '' @
                    (case r_note r of None \<Rightarrow> [] | Some n \<Rightarrow> n))),
      conversionRate = None, convertedAmount = None,
      fromCurrency = None, toCurrency = None,
      transactionDate = now, tags = r_tags r, wasEdited = False, createdAt = now\<rparr>"

text \<open>The balance updates of \<^verbatim>\<open>executeNow\<close>; there is no branch for an investment.\<close>

definition applyRecurring :: "int \<Rightarrow> nat \<Rightarrow> recurring \<Rightarrow> db \<Rightarrow> db" where
  "applyRecurring now user r d =
     (if r_type r = Income \<and> r_toAccount r \<noteq> None
      then Account_incBalance (r_toAccount r) (r_amount r) d
      else if r_type r = Expense \<and> r_fromAccount r \<noteq> None
      then Budget_incSpent user (r_category r) now (r_amount r)
             (Account_incBalance (r_fromAccount r) (- r_amount r) d)
      else if r_type r = Transfer
      then Account_incBalance (r_toAccount r) (r_amount r)
             (Account_incBalance (r_fromAccount r) (- r_amount r) d)
      else d)"

text \<open>
  The schedule update of \<^verbatim>\<open>executeNow\<close>: last run, next run, the counter, and the
  switch to inactive once a maximum that is not null and not 0 has been reached.
\<close>

definition advanceSchedule :: "int \<Rightarrow> recurring \<Rightarrow> recurring" where
  "advanceSchedule now r =
     (let r1 = r\<lparr>lastRunDate := Some now,
                  nextRunDate := calculateNextRunDate r,
                  totalExecutions := totalExecutions r + 1\<rparr>
      in if (case maxExecutions r1 of
               None \<Rightarrow> False
             | Some m \<Rightarrow> m \<noteq> 0 \<and> m \<le> totalExecutions r1)
         then r1\<lparr>isActive := False\<rparr>
         else r1)"

text \<open>
  \<^verbatim>\<open>executeNow\<close>: the response (an error, or the transaction read back from the
  ledger together with the saved definition) and the database the request leaves behind.
\<close>

definition executeNow ::
  "db \<Rightarrow> nat \<Rightarrow> int \<Rightarrow> nat \<Rightarrow> nat \<Rightarrow> (error + transaction option \<times> recurring) \<times> db" where
  "executeNow d oid now user i =
     (case Recurring_findOne d i user of
        None \<Rightarrow> (Inl RecurringNotFound, d)
      | Some r \<Rightarrow>
          (case Transaction_create d oid (transactionData now user r) of
             Inl e \<Rightarrow> (Inl e, d)
           | Inr (t, d1) \<Rightarrow>
               (let d2 = applyRecurring now user r d1;
                    r' = advanceSchedule now r;
                    d3 = d2\<lparr>recurrings := (recurrings d2)(i \<mapsto> r')\<rparr>
                in (Inr (transactions d3 oid, r'), d3))))"

section \<open>The rate of return of an investment\<close>

text \<open>
  JavaScript numbers are double-precision floating-point numbers. The computation below is
  written over the reals, with every arithmetic operation and every decimal literal
  followed by the rounding \<open>rnd\<close> of the machine, and with \<^verbatim>\<open>Math.pow\<close> as the
  machine provides it; the two are parameters. Negation, comparison and the absolute value
  are exact. The integers that occur (1000, 1100, 10, the milliseconds of a date) are
  floating-point numbers and are not rounded.
\<close>

record machine =
  rnd :: "real \<Rightarrow> real"
  Math_pow :: "real \<Rightarrow> real \<Rightarrow> real"

text \<open>
  Of an investment the fields that the computation reads: its transactions (type, date,
  amount), its status and its current value.
\<close>

datatype inv_txn_type = Buy | Sell | Dividend | Split | Bonus

datatype inv_status = ActiveInvestment | Sold | Matured | PartialSold

record inv_txn =
  it_type :: inv_txn_type
  it_date :: int
  it_amount :: real

record investment =
  inv_transactions :: "inv_txn list"
  inv_status :: inv_status
  currentValue :: real

text \<open>
  The inner loop of \<^verbatim>\<open>calculateXIRRValue\<close> over the cash flows and their years: the
  net present value and its derivative at \<open>guess\<close>. Where JavaScript would divide by zero
  and go on with an infinity or a NaN, the model stops and answers \<open>None\<close>.
\<close>

fun npvLoop :: "machine \<Rightarrow> real \<Rightarrow> (real \<times> real) list \<Rightarrow> real \<Rightarrow> real \<Rightarrow> (real \<times> real) option" where
  "npvLoop M guess [] npv dnpv = Some (npv, dnpv)"
| "npvLoop M guess ((cf, y) # rest) npv dnpv =
     (let base = rnd M (1 + guess); p = Math_pow M base y in
      if p = 0 \<or> base = 0 then None
      else
        (let pv = rnd M (cf / p) in
         npvLoop M guess rest
           (rnd M (npv + pv))
           (rnd M (dnpv - rnd M (rnd M (y * pv) / base)))))"

text \<open>The two tests that keep the guess between -0.99 and 10.\<close>

definition clamp :: "machine \<Rightarrow> real \<Rightarrow> real" where
  "clamp M guess =
     (let g = (if guess < rnd M (- (99 / 100)) then rnd M (- (99 / 100)) else guess) in
      if 10 < g then 10 else g)"

text \<open>
  The Newton-Raphson iteration with \<open>n\<close> iterations left: it returns the new guess once
  two successive guesses differ by less than the tolerance 0.0001, and the last guess when
  no iteration is left. A derivative of 0 is a positive zero, so the quotient is an
  infinity of the sign of the net present value (the new guess is the opposite infinity,
  which is not within the tolerance and is clamped to -0.99 or to 10), or it is NaN when
  the net present value is 0 too, and then the result is NaN: the model answers \<open>None\<close>.
\<close>

fun newton :: "machine \<Rightarrow> (real \<times> real) list \<Rightarrow> nat \<Rightarrow> real \<Rightarrow> real option" where
  "newton M flows 0 guess = Some guess"
| "newton M flows (Suc n) guess =
     (case npvLoop M guess flows 0 0 of
        None \<Rightarrow> None
      | Some (npv, dnpv) \<Rightarrow>
          if dnpv = 0
          then (if npv = 0 then None
                else newton M flows n (if 0 < npv then rnd M (- (99 / 100)) else 10))
          else
            (let newGuess = rnd M (guess - rnd M (npv / dnpv)) in
             if \<bar>rnd M (newGuess - guess)\<bar> < rnd M (1 / 10000) then Some newGuess
             else newton M flows n (clamp M newGuess)))"

text \<open>
  \<^verbatim>\<open>calculateXIRRValue\<close>: years since the first date (a year is 365 days of
  milliseconds), initial guess 0.1, at most 100 iterations. The caller passes as many
  dates as cash flows.
\<close>

definition calculateXIRRValue :: "machine \<Rightarrow> real list \<Rightarrow> int list \<Rightarrow> real option" where
  "calculateXIRRValue M cashFlows dates =
     (if length cashFlows < 2 then Some 0
      else
        (case dates of
           [] \<Rightarrow> None
         | firstDate # ds \<Rightarrow>
             (let years = map (\<lambda>d. rnd M (real_of_int (d - firstDate) / 31536000000)) dates
              in newton M (zip cashFlows years) 100 (rnd M (1 / 10)))))"

text \<open>
  \<^verbatim>\<open>calculateXIRR\<close> for an investment that has been found: a buy is an outflow, a
  sale and a dividend are inflows, other transactions and amounts of 0 are left out; the
  current value at the present time is the last inflow unless the investment is sold. The
  result is the rate as a percentage.
\<close>

definition cashFlowOf :: "inv_txn \<Rightarrow> real" where
  "cashFlowOf txn =
     (case it_type txn of
        Buy \<Rightarrow> - it_amount txn
      | Sell \<Rightarrow> it_amount txn
      | Dividend \<Rightarrow> it_amount txn
      | Split \<Rightarrow> 0
      | Bonus \<Rightarrow> 0)"

definition calculateXIRR :: "machine \<Rightarrow> int \<Rightarrow> investment \<Rightarrow> real option" where
  "calculateXIRR M now iv =
     (let txns = filter (\<lambda>txn. cashFlowOf txn \<noteq> 0) (inv_transactions iv);
          cashFlows = map cashFlowOf txns @ (if inv_status iv \<noteq> Sold then [currentValue iv] else []);
          dates = map it_date txns @ (if inv_status iv \<noteq> Sold then [now] else [])
      in map_option (\<lambda>xirr. rnd M (xirr * 100)) (calculateXIRRValue M cashFlows dates))"

section \<open>Notions used to state the properties\<close>

text \<open>A request is accepted when its response is not an error.\<close>

definition accepted :: "(error + 'a) \<times> db \<Rightarrow> bool" where
  "accepted res = (case fst res of Inl e \<Rightarrow> False | Inr x \<Rightarrow> True)"

definition balanceOf :: "db \<Rightarrow> nat \<Rightarrow> real option" where
  "balanceOf d a = map_option balance (accounts d a)"

text \<open>
  The credit of a transfer in the words of the specification: the converted amount if a
  conversion is specified, that is, if the body gives a converted amount, and the amount
  otherwise.
\<close>

definition creditBySpec :: "create_body \<Rightarrow> real" where
  "creditBySpec body =
     (case b_convertedAmount body of
        None \<Rightarrow> b_amount body
      | Some c \<Rightarrow> c)"

text \<open>The credit of a transfer as amended: a converted amount of 0 counts as none.\<close>

definition creditAsAmended :: "create_body \<Rightarrow> real" where
  "creditAsAmended body =
     (case b_convertedAmount body of
        None \<Rightarrow> b_amount body
      | Some c \<Rightarrow> if c = 0 then b_amount body else c)"

text \<open>
  The balance protocol of the specification, for a transaction of type \<open>ty\<close> with source
  \<open>src\<close>, destination \<open>dst\<close> and amount \<open>amt\<close>, and for the amount \<open>credit\<close> that a
  transfer adds to its destination: what the balance \<open>b\<close> of account \<open>x\<close> becomes. An
  expense, a transfer and an investment debit the source by the amount; an income credits
  the destination by the amount and a transfer credits it by \<open>credit\<close>; an expense and an
  investment credit nothing. Each leg is one floating-point addition.
\<close>

definition protocolBalance ::
  "txn_type \<Rightarrow> nat option \<Rightarrow> nat option \<Rightarrow> real \<Rightarrow> real \<Rightarrow> nat \<Rightarrow> real \<Rightarrow> real" where
  "protocolBalance ty src dst amt credit x b =
     (let debited =
            (case ty of
               Income \<Rightarrow> b
             | Expense \<Rightarrow> if src = Some x then roundDouble (b - amt) else b
             | Transfer \<Rightarrow> if src = Some x then roundDouble (b - amt) else b
             | Investment \<Rightarrow> if src = Some x then roundDouble (b - amt) else b)
      in case ty of
           Income \<Rightarrow> if dst = Some x then roundDouble (debited + amt) else debited
         | Expense \<Rightarrow> debited
         | Transfer \<Rightarrow> if dst = Some x then roundDouble (debited + credit) else debited
         | Investment \<Rightarrow> debited)"

text \<open>
  The eligibility condition in the words of the specification: active, not paused, no end
  date or not past it, no maximum or fewer executions than the maximum, and due.
\<close>

definition eligibleBySpec :: "int \<Rightarrow> recurring \<Rightarrow> bool" where
  "eligibleBySpec now r =
     (isActive r \<and> \<not> isPaused r \<and>
      (case endDate r of None \<Rightarrow> True | Some e \<Rightarrow> now \<le> e) \<and>
      (case maxExecutions r of None \<Rightarrow> True | Some m \<Rightarrow> totalExecutions r < m) \<and>
      nextRunDate r \<le> now)"

text \<open>
  The funds check of an amendment: only an expense whose amount changes is checked, and
  then the balance of its source account must cover the increase.
\<close>

definition fundsSuffice :: "db \<Rightarrow> transaction \<Rightarrow> update_body \<Rightarrow> bool" where
  "fundsSuffice d t body =
     (case u_amount body of
        None \<Rightarrow> True
      | Some a \<Rightarrow>
          if txType t = Expense \<and> a \<noteq> 0 \<and> a \<noteq> amount t
          then (case Account_findById d (fromAccount t) of
                  None \<Rightarrow> False
                | Some acc \<Rightarrow> roundDouble (a - amount t) \<le> balance acc)
          else True)"

text \<open>The machine that computes without rounding error.\<close>

definition exact :: machine where
  "exact = \<lparr>rnd = (\<lambda>x. x), Math_pow = (\<lambda>b e. b powr e)\<rparr>"

section \<open>Sample data\<close>

text \<open>
  User 7 owns account 21 with a balance of 50 and account 22 with a balance of 1000. The
  recurring definition 5 pays a rent of 100 from account 21 on the 31st of every month, at
  most three times; its next run is 31 January 2023. Definition 6 is the same, paid from
  account 22. Definition 8 is a copy that is inactive, paused, past its end date and at its
  maximum. Definition 9 is a weekly investment of 100 from account 22 that is inactive,
  paused, past its end date and at its maximum as well.
\<close>

definition jan31 :: int where
  "jan31 = 1675123200000"

definition exampleRule :: recurring where
  "exampleRule =
     \<lparr>r_userId = 7, r_name = ''rent'', r_type = Expense,
      r_fromAccount = Some 21, r_toAccount = None, r_amount = 100,
      r_category = ''housing'', r_paymentMode = BankTransfer, r_note = None,
      frequency = Monthly, dayOfMonth = Some 31, endDate = None,
      nextRunDate = jan31, lastRunDate = None,
      isActive = True, isPaused = False,
      totalExecutions = 0, maxExecutions = Some 3, r_tags = []\<rparr>"

definition spentRule :: recurring where
  "spentRule =
     exampleRule\<lparr>r_fromAccount := Some 22, endDate := Some 0, isActive := False,
                 isPaused := True, totalExecutions := 3\<rparr>"

definition idleInvestmentRule :: recurring where
  "idleInvestmentRule = spentRule\<lparr>r_type := Investment, frequency := Weekly\<rparr>"

definition exampleDb :: db where
  "exampleDb =
     \<lparr>transactions = Map.empty,
      accounts = [21 \<mapsto> \<lparr>a_userId = 7, balance = 50, status = Active\<rparr>,
                  22 \<mapsto> \<lparr>a_userId = 7, balance = 1000, status = Active\<rparr>],
      budgets = [], logs = [],
      recurrings = [5 \<mapsto> exampleRule,
                    6 \<mapsto> exampleRule\<lparr>r_fromAccount := Some 22\<rparr>,
                    8 \<mapsto> spentRule,
                    9 \<mapsto> idleInvestmentRule]\<rparr>"

text \<open>Four executions of definition 6, one after the other.\<close>

definition run1 :: "(error + transaction option \<times> recurring) \<times> db" where
  "run1 = executeNow exampleDb 11 jan31 7 6"

definition run2 :: "(error + transaction option \<times> recurring) \<times> db" where
  "run2 = executeNow (snd run1) 12 jan31 7 6"

definition run3 :: "(error + transaction option \<times> recurring) \<times> db" where
  "run3 = executeNow (snd run2) 13 jan31 7 6"

definition run4 :: "(error + transaction option \<times> recurring) \<times> db" where
  "run4 = executeNow (snd run3) 14 jan31 7 6"

definition exampleBody :: create_body where
  "exampleBody =
     \<lparr>b_type = Expense, b_fromAccount = Some 21, b_toAccount = None,
      b_amount = 100, b_category = ''food'', b_paymentMode = None, b_note = None,
      b_conversionRate = None, b_convertedAmount = None,
      b_fromCurrency = None, b_toCurrency = None,
      b_transactionDate = None, b_tags = []\<rparr>"

text \<open>
  A transfer of 100 from account 22 to account 21 whose converted amount is 90.
\<close>

definition transferBody :: create_body where
  "transferBody =
     exampleBody\<lparr>b_type := Transfer, b_fromAccount := Some 22, b_toAccount := Some 21,
                  b_convertedAmount := Some 90\<rparr>"

text \<open>The same transfer with a converted amount of 0.\<close>

definition zeroConversionBody :: create_body where
  "zeroConversionBody = transferBody\<lparr>b_convertedAmount := Some 0\<rparr>"

text \<open>
  A ledger with two transactions of user 7: expense 41 of 30 from account 21, and transfer
  42 of 100 from account 22 to account 21. One amendment raises the amount to 150, another
  one sets it to 40 and gives its reason with blanks around it.
\<close>

definition exampleExpense :: transaction where
  "exampleExpense =
     \<lparr>userId = 7, txType = Expense, fromAccount = Some 21, toAccount = None,
      amount = 30, category = ''food'', paymentMode = Cash, txNote = None,
      conversionRate = None, convertedAmount = None,
      fromCurrency = None, toCurrency = None,
      transactionDate = jan31, tags = [], wasEdited = False, createdAt = jan31\<rparr>"

definition exampleTransfer :: transaction where
  "exampleTransfer =
     exampleExpense\<lparr>txType := Transfer, fromAccount := Some 22, toAccount := Some 21,
                     amount := 100, category := ''savings''\<rparr>"

definition ledgerDb :: db where
  "ledgerDb = exampleDb\<lparr>transactions := [41 \<mapsto> exampleExpense, 42 \<mapsto> exampleTransfer]\<rparr>"

definition amendBody :: update_body where
  "amendBody =
     \<lparr>u_reason = Some ''typo'', u_amount = Some 150, u_category = None,
      u_paymentMode = None, u_note = None, u_transactionDate = None, u_tags = None\<rparr>"

definition smallAmend :: update_body where
  "smallAmend = amendBody\<lparr>u_reason := Some '' typo '', u_amount := Some 40\<rparr>"

text \<open>An investment bought for 1000 on 31 January 2023 and worth 1100 now.\<close>

definition exampleInvestment :: investment where
  "exampleInvestment =
     \<lparr>inv_transactions = [\<lparr>it_type = Buy, it_date = jan31, it_amount = 1000\<rparr>],
      inv_status = ActiveInvestment, currentValue = 1100\<rparr>"

section \<open>Properties of the rounding\<close>

text \<open>An integer of magnitude below 2 to the 53 is a double: rounding leaves it alone.\<close>

lemma roundHalfEven_of_int [simp]:
  "roundHalfEven (of_int n) = n"
  by (simp add: roundHalfEven_def)

lemma roundDouble_of_int:
  assumes "\<bar>n\<bar> < 2 ^ 53"
  shows "roundDouble (of_int n) = of_int n"
proof (cases "n = 0")
  case True
  then show ?thesis by (simp add: roundDouble_def)
next
  case False
  define x :: real where "x = \<bar>of_int n\<bar>"
  define e where "e = \<lfloor>log 2 x\<rfloor>"
  have x1: "1 \<le> x" using False unfolding x_def by (simp flip: of_int_abs)
  have x2: "x < 2 ^ 53"
    using assms unfolding x_def by (metis of_int_abs of_int_less_numeral_power_cancel_iff)
  have "0 \<le> log 2 x" using x1 by simp
  then have e0: "0 \<le> e" unfolding e_def by simp
  have "log 2 x < 53" using x1 x2 by (simp add: log_less_iff)
  then have e1: "e \<le> 52" unfolding e_def by (simp add: floor_less_iff)
  define k where "k = nat (52 - e)"
  have k: "real_of_int e - 52 = - real k" using e1 unfolding k_def by simp
  have ulp: "(2::real) powr (real_of_int e - 52) = inverse (2 ^ k)"
    unfolding k by (simp add: powr_minus powr_realpow)
  have "of_int n / inverse ((2::real) ^ k) = of_int (n * 2 ^ k)"
    by (simp add: field_simps)
  then have "roundHalfEven (of_int n / inverse (2 ^ k)) = n * 2 ^ k"
    by (simp only: roundHalfEven_of_int)
  then show ?thesis
    using False unfolding roundDouble_def Let_def x_def [symmetric] e_def [symmetric] ulp
    by simp
qed

lemma roundDouble_numeral [simp]:
  "(numeral n :: int) < 2 ^ 53 \<Longrightarrow> roundDouble (numeral n) = numeral n"
  using roundDouble_of_int [of "numeral n"] by simp

lemma roundDouble_neg_numeral [simp]:
  "(numeral n :: int) < 2 ^ 53 \<Longrightarrow> roundDouble (- numeral n) = - numeral n"
  using roundDouble_of_int [of "- numeral n"] by simp

lemma roundDouble_0 [simp]: "roundDouble 0 = 0"
  by (simp add: roundDouble_def)

section \<open>Properties of the schedule\<close>

text \<open>
  The year function meets its ECMAScript definition: the year of a time is the largest
  year whose first day is not after the day of the time.
\<close>

lemma div_bounds:
  fixes a k :: int
  assumes "0 < k"
  shows "k * (a div k) \<le> a" and "a < k * (a div k) + k"
proof -
  have "k * (a div k) + a mod k = a" by (rule mult_div_mod_eq)
  moreover have "0 \<le> a mod k" "a mod k < k" using assms by simp_all
  ultimately show "k * (a div k) \<le> a" and "a < k * (a div k) + k" by linarith+
qed

lemma DayFromYear_bounds:
  "400 * DayFromYear y \<le> 146097 * (y - 1970) + 764"
  "146097 * (y - 1970) - 592 \<le> 400 * DayFromYear y"
proof -
  define q4 where "q4 = (y - 1969) div 4"
  define q100 where "q100 = (y - 1901) div 100"
  define q400 where "q400 = (y - 1601) div 400"
  have b: "4 * q4 \<le> y - 1969" "y - 1969 < 4 * q4 + 4"
    "100 * q100 \<le> y - 1901" "y - 1901 < 100 * q100 + 100"
    "400 * q400 \<le> y - 1601" "y - 1601 < 400 * q400 + 400"
    unfolding q4_def q100_def q400_def by (simp_all add: div_bounds)
  have d: "DayFromYear y = 365 * (y - 1970) + q4 - q100 + q400"
    unfolding DayFromYear_def q4_def q100_def q400_def by simp
  show "400 * DayFromYear y \<le> 146097 * (y - 1970) + 764"
    and "146097 * (y - 1970) - 592 \<le> 400 * DayFromYear y"
    unfolding d using b by (simp_all add: algebra_simps)
qed

lemma YearFromTime_largest:
  "DayFromYear (YearFromTime t) \<le> Day t \<and> Day t < DayFromYear (YearFromTime t + 1)"
proof -
  define d where "d = Day t"
  define y where "y = 1970 + (400 * d) div 146097"
  have e: "146097 * (y - 1970) \<le> 400 * d" "400 * d < 146097 * (y - 1970) + 146097"
    using div_bounds [of 146097 "400 * d"] unfolding y_def by simp_all
  have lo: "DayFromYear (y - 1) \<le> d"
    using e DayFromYear_bounds(1) [of "y - 1"] by (simp add: algebra_simps)
  have hi: "d < DayFromYear (2 + y)"
    using e DayFromYear_bounds(2) [of "2 + y"] by (simp add: algebra_simps)
  from lo hi show ?thesis
    unfolding YearFromTime_def Let_def d_def [symmetric] y_def [symmetric]
    by (simp add: not_le)
qed

lemma jan31_2023_steps:
  "newDate 2023 0 31 = 1675123200000"
  "getMonth 1675123200000 = 0"
  "setMonth 1675123200000 1 = 1677801600000"
  "getFullYear 1677801600000 = 2023"
  "getMonth 1677801600000 = 2"
  "getDate 1677801600000 = 3"
  "getDate (newDate 2023 3 0) = 31"
  "setDate 1677801600000 31 = 1680220800000"
  "newDate 2023 2 31 = 1680220800000"
  "newDate 2023 1 28 = 1677542400000"
  by code_simp+

lemma jan31_2024_steps:
  "newDate 2024 0 31 = 1706659200000"
  "getMonth 1706659200000 = 0"
  "setMonth 1706659200000 1 = 1709337600000"
  "getFullYear 1709337600000 = 2024"
  "getMonth 1709337600000 = 2"
  "getDate 1709337600000 = 2"
  "getDate (newDate 2024 3 0) = 31"
  "setDate 1709337600000 31 = 1711843200000"
  "newDate 2024 2 31 = 1711843200000"
  "newDate 2024 1 29 = 1709164800000"
  by code_simp+

lemma march31_fields:
  "getMonth (newDate 2023 2 31) = 2" "getDate (newDate 2023 2 31) = 31"
  "getMonth (newDate 2024 2 31) = 2" "getDate (newDate 2024 2 31) = 31"
  by code_simp+

text \<open>
  C1. A monthly definition with dayOfMonth 31 whose next run is 31 January does not
  advance to the last day of February. \<^verbatim>\<open>setMonth\<close> first carries the 31st of
  February over into March (3 March 2023, 2 March 2024), and the clamp is then computed
  for March: the next run is 31 March, in a common year and in a leap year alike, and
  February is skipped.
\<close>

theorem calculateNextRunDate_jan31_skips_february:
  "calculateNextRunDate
     (r\<lparr>frequency := Monthly, dayOfMonth := Some 31, nextRunDate := newDate 2023 0 31\<rparr>)
     = newDate 2023 2 31 \<and>
   getMonth (newDate 2023 2 31) = 2 \<and> getDate (newDate 2023 2 31) = 31 \<and>
   newDate 2023 1 28 < newDate 2023 2 31 \<and>
   calculateNextRunDate
     (r\<lparr>frequency := Monthly, dayOfMonth := Some 31, nextRunDate := newDate 2024 0 31\<rparr>)
     = newDate 2024 2 31 \<and>
   getMonth (newDate 2024 2 31) = 2 \<and> getDate (newDate 2024 2 31) = 31 \<and>
   newDate 2024 1 29 < newDate 2024 2 31"
  by (simp add: calculateNextRunDate_def march31_fields)
     (simp add: jan31_2023_steps jan31_2024_steps)

text \<open>
  C8, as the code has it. \<^verbatim>\<open>shouldExecute\<close> is true exactly when the definition is
  active, is not paused, has no end date or is not past it, has no maximum or a maximum
  of 0 or fewer executions than the maximum, and is due. It returns a truth value on every
  input and never fails.
\<close>

theorem shouldExecute_iff:
  "shouldExecute now r \<longleftrightarrow>
     isActive r \<and> \<not> isPaused r \<and>
     (case endDate r of None \<Rightarrow> True | Some e \<Rightarrow> now \<le> e) \<and>
     (case maxExecutions r of None \<Rightarrow> True | Some m \<Rightarrow> m = 0 \<or> totalExecutions r < m) \<and>
     nextRunDate r \<le> now"
  by (auto simp: shouldExecute_def split: option.splits)

theorem shouldExecute_iff_witness:
  "shouldExecute jan31 exampleRule \<and>
   \<not> shouldExecute jan31 (exampleRule\<lparr>totalExecutions := 3\<rparr>) \<and>
   \<not> shouldExecute (jan31 - 1) exampleRule"
  using shouldExecute_iff [of jan31 exampleRule]
    shouldExecute_iff [of jan31 "exampleRule\<lparr>totalExecutions := 3\<rparr>"]
    shouldExecute_iff [of "jan31 - 1" exampleRule]
  by (simp add: exampleRule_def)

text \<open>
  C8, as the claim states it, fails for a maximum of 0: the code reads 0 as no maximum,
  the claim as a maximum that is already reached.
\<close>

theorem shouldExecute_zero_maximum_counterexample:
  "shouldExecute jan31 (exampleRule\<lparr>maxExecutions := Some 0\<rparr>) \<and>
   \<not> eligibleBySpec jan31 (exampleRule\<lparr>maxExecutions := Some 0\<rparr>)"
  by (simp add: shouldExecute_def eligibleBySpec_def exampleRule_def)

section \<open>Properties of the ledger\<close>

lemma Transaction_create_Inr:
  "Transaction_create d oid doc = Inr (t, d1) \<Longrightarrow>
     transactions d oid = None \<and> d1 = d\<lparr>transactions := (transactions d)(oid \<mapsto> t)\<rparr>"
  by (auto simp: Transaction_create_def Let_def split: if_splits)

lemma delete_after_create:
  "transactions d oid = None \<Longrightarrow>
   Transaction_findByIdAndDelete oid (d\<lparr>transactions := (transactions d)(oid \<mapsto> t)\<rparr>) = d"
  by (simp add: Transaction_findByIdAndDelete_def fun_upd_idem)

lemma balanceOf_incBalance:
  "balanceOf (Account_incBalance i delta d) x =
     map_option (\<lambda>b. if i = Some x then roundDouble (b + delta) else b) (balanceOf d x)"
  by (cases i; cases "accounts d x")
     (auto simp: balanceOf_def Account_incBalance_def Account_findById_def option.map_ident
           split: option.splits)

lemma balanceOf_Budget_incSpent [simp]:
  "balanceOf (Budget_incSpent user cat now delta d) x = balanceOf d x"
  by (simp add: balanceOf_def Budget_incSpent_def)

lemma balanceOf_transactions_update [simp]:
  "balanceOf (d\<lparr>transactions := m\<rparr>) x = balanceOf d x"
  by (simp add: balanceOf_def)

lemma findById_transactions_update [simp]:
  "Account_findById (d\<lparr>transactions := m\<rparr>) i = Account_findById d i"
  by (cases i) (simp_all add: Account_findById_def)

lemma accepted_simps [simp]:
  "accepted (Inl e, d) = False"
  "accepted (Inr x, d) = True"
  by (simp_all add: accepted_def)

text \<open>
  C4. An expense whose amount exceeds the balance of its source account is rejected, and
  the request leaves the database exactly as it found it: the transaction that was stored
  before the check is deleted again, and no balance and no budget is touched. This holds
  whichever rejection the request meets (an account check, a validator, the balance check).
\<close>

theorem createTransaction_expense_insufficient:
  assumes "b_type body = Expense" and "b_fromAccount body = Some a"
    and "accounts d a = Some acc" and "balance acc < b_amount body"
  shows "\<not> accepted (createTransaction d oid now user body) \<and>
         snd (createTransaction d oid now user body) = d"
proof (cases "checkAccounts d user body")
  case (Some e)
  then show ?thesis by (simp add: createTransaction_def)
next
  case None
  show ?thesis
  proof (cases "Transaction_create d oid (documentOf now user body)")
    case (Inl e)
    with None show ?thesis by (simp add: createTransaction_def)
  next
    case (Inr p)
    then obtain t d1 where p: "p = (t, d1)" by (cases p)
    from Inr p have fresh: "transactions d oid = None"
      and d1: "d1 = d\<lparr>transactions := (transactions d)(oid \<mapsto> t)\<rparr>"
      using Transaction_create_Inr by blast+
    have "applyCreate oid now user body d1 = (Some InsufficientBalance, d)"
      using assms fresh by (simp add: applyCreate_def d1 Account_findById_def delete_after_create)
    with None Inr p show ?thesis by (simp add: createTransaction_def)
  qed
qed

theorem createTransaction_expense_insufficient_witness:
  "b_type exampleBody = Expense \<and> b_fromAccount exampleBody = Some 21 \<and>
   balanceOf exampleDb 21 = Some 50 \<and> 50 < b_amount exampleBody \<and>
   \<not> accepted (createTransaction exampleDb 31 jan31 7 exampleBody) \<and>
   snd (createTransaction exampleDb 31 jan31 7 exampleBody) = exampleDb"
proof -
  have h: "b_type exampleBody = Expense" "b_fromAccount exampleBody = Some 21"
    "accounts exampleDb 21 = Some \<lparr>a_userId = 7, balance = 50, status = Active\<rparr>"
    "balance \<lparr>a_userId = 7, balance = 50, status = Active\<rparr> < b_amount exampleBody"
    by (simp_all add: exampleBody_def exampleDb_def)
  from createTransaction_expense_insufficient [OF h] h show ?thesis by (simp add: balanceOf_def exampleBody_def)
qed

lemma zero_conversion_accepted:
  "accepted (createTransaction exampleDb 31 jan31 7 zeroConversionBody)"
  by (simp add: createTransaction_def checkAccounts_def Account_findOne_def exampleDb_def
        zeroConversionBody_def transferBody_def exampleBody_def Transaction_create_def
        applySetters_def documentOf_def validTransaction_def trim_def isWhiteSpace_def Let_def
        applyCreate_def Account_findById_def Account_incBalance_def)

lemma zero_conversion_balance:
  "balanceOf (snd (createTransaction exampleDb 31 jan31 7 zeroConversionBody)) 21 = Some 150"
  by (simp add: createTransaction_def checkAccounts_def Account_findOne_def exampleDb_def
        zeroConversionBody_def transferBody_def exampleBody_def Transaction_create_def
        applySetters_def documentOf_def validTransaction_def trim_def isWhiteSpace_def Let_def
        applyCreate_def Account_findById_def Account_incBalance_def amountToAdd_def
        balanceOf_def)

text \<open>
  C7, as the claim states it, fails for a transfer that specifies a converted amount of 0.
  The transfer of 100 from account 22 to account 21 with converted amount 0 is accepted;
  by the protocol of the specification the destination is credited by the converted
  amount and keeps its balance of 50, whereas \<^verbatim>\<open>createTransaction\<close> credits it by
  the amount: the balance becomes 150.
\<close>

theorem createTransaction_zero_conversion_counterexample:
  "accepted (createTransaction exampleDb 31 jan31 7 zeroConversionBody) \<and>
   b_convertedAmount zeroConversionBody = Some 0 \<and>
   balanceOf exampleDb 21 = Some 50 \<and>
   map_option
     (protocolBalance (b_type zeroConversionBody) (b_fromAccount zeroConversionBody)
        (b_toAccount zeroConversionBody) (b_amount zeroConversionBody)
        (creditBySpec zeroConversionBody) 21)
     (balanceOf exampleDb 21) = Some 50 \<and>
   balanceOf (snd (createTransaction exampleDb 31 jan31 7 zeroConversionBody)) 21 = Some 150"
  using zero_conversion_accepted zero_conversion_balance
  by (simp add: balanceOf_def exampleDb_def protocolBalance_def creditBySpec_def
        zeroConversionBody_def transferBody_def exampleBody_def)

text \<open>
  C7, as the code has it. Every accepted creation takes the balance of every account \<open>x\<close>
  to what the protocol prescribes, a converted amount of 0 counting as none: an income
  credits the destination by the amount; a transfer debits the source by the amount and
  credits the destination by the converted amount when one is given and is not 0, and by
  the amount otherwise; an investment debits the source by the amount and credits nothing;
  an expense debits the source by the amount. Every debit and every credit is one
  floating-point addition, and no account is created or removed.
\<close>

theorem createTransaction_balance_protocol:
  assumes "accepted (createTransaction d oid now user body)"
  shows "balanceOf (snd (createTransaction d oid now user body)) x =
           map_option
             (protocolBalance (b_type body) (b_fromAccount body) (b_toAccount body)
                (b_amount body) (creditAsAmended body) x)
             (balanceOf d x)"
proof -
  from assms have ca: "checkAccounts d user body = None"
    by (auto simp: createTransaction_def split: option.splits)
  from assms ca obtain t1 d1 where tc: "Transaction_create d oid (documentOf now user body) = Inr (t1, d1)"
    by (auto simp: createTransaction_def split: sum.splits)
  then have d1: "d1 = d\<lparr>transactions := (transactions d)(oid \<mapsto> t1)\<rparr>"
    using Transaction_create_Inr by blast
  from assms ca tc obtain d' where ac: "applyCreate oid now user body d1 = (None, d')"
    and d': "snd (createTransaction d oid now user body) = d'"
    by (auto simp: createTransaction_def split: prod.splits option.splits)
  have c: "amountToAdd body = creditAsAmended body"
    by (simp add: amountToAdd_def creditAsAmended_def)
  show ?thesis unfolding d'
  proof (cases "b_type body")
    case Income
    with ac have "d' = Account_incBalance (b_toAccount body) (b_amount body) d1"
      by (auto simp: applyCreate_def)
    then show "balanceOf d' x =
        map_option
          (protocolBalance (b_type body) (b_fromAccount body) (b_toAccount body)
             (b_amount body) (creditAsAmended body) x)
          (balanceOf d x)"
      using Income
      by (cases "balanceOf d x") (simp_all add: d1 protocolBalance_def balanceOf_incBalance)
  next
    case Expense
    with ac have "d' = Budget_incSpent user (b_category body) now (b_amount body)
                         (Account_incBalance (b_fromAccount body) (- b_amount body) d1)"
      by (auto simp: applyCreate_def split: option.splits if_splits)
    then show "balanceOf d' x =
        map_option
          (protocolBalance (b_type body) (b_fromAccount body) (b_toAccount body)
             (b_amount body) (creditAsAmended body) x)
          (balanceOf d x)"
      using Expense
      by (cases "balanceOf d x") (simp_all add: d1 protocolBalance_def balanceOf_incBalance)
  next
    case Transfer
    with ac have "d' = Account_incBalance (b_toAccount body) (amountToAdd body)
                         (Account_incBalance (b_fromAccount body) (- b_amount body) d1)"
      by (auto simp: applyCreate_def split: option.splits if_splits)
    then show "balanceOf d' x =
        map_option
          (protocolBalance (b_type body) (b_fromAccount body) (b_toAccount body)
             (b_amount body) (creditAsAmended body) x)
          (balanceOf d x)"
      using Transfer
      by (cases "balanceOf d x") (simp_all add: d1 c protocolBalance_def balanceOf_incBalance)
  next
    case Investment
    with ac have "d' = Account_incBalance (b_fromAccount body) (- b_amount body) d1"
      by (auto simp: applyCreate_def split: option.splits if_splits)
    then show "balanceOf d' x =
        map_option
          (protocolBalance (b_type body) (b_fromAccount body) (b_toAccount body)
             (b_amount body) (creditAsAmended body) x)
          (balanceOf d x)"
      using Investment
      by (cases "balanceOf d x") (simp_all add: d1 protocolBalance_def balanceOf_incBalance)
  qed
qed

lemma transfer_accepted:
  "accepted (createTransaction exampleDb 31 jan31 7 transferBody)"
  by (simp add: createTransaction_def checkAccounts_def Account_findOne_def exampleDb_def
        transferBody_def exampleBody_def Transaction_create_def applySetters_def
        documentOf_def validTransaction_def trim_def isWhiteSpace_def Let_def
        applyCreate_def Account_findById_def Account_incBalance_def)

theorem createTransaction_balance_protocol_witness:
  "accepted (createTransaction exampleDb 31 jan31 7 transferBody) \<and>
   balanceOf exampleDb 22 = Some 1000 \<and> balanceOf exampleDb 21 = Some 50 \<and>
   balanceOf (snd (createTransaction exampleDb 31 jan31 7 transferBody)) 22 = Some 900 \<and>
   balanceOf (snd (createTransaction exampleDb 31 jan31 7 transferBody)) 21 = Some 140"
  using transfer_accepted createTransaction_balance_protocol [OF transfer_accepted, of 22]
    createTransaction_balance_protocol [OF transfer_accepted, of 21]
  by (simp add: balanceOf_def exampleDb_def protocolBalance_def creditAsAmended_def
        transferBody_def exampleBody_def)

section \<open>Properties of the execution of recurring definitions\<close>

lemma incBalance_fields [simp]:
  "transactions (Account_incBalance i delta d) = transactions d"
  "recurrings (Account_incBalance i delta d) = recurrings d"
  "logs (Account_incBalance i delta d) = logs d"
  "budgets (Account_incBalance i delta d) = budgets d"
  by (simp_all add: Account_incBalance_def split: option.splits)

lemma Budget_incSpent_fields [simp]:
  "transactions (Budget_incSpent user cat now delta d) = transactions d"
  "recurrings (Budget_incSpent user cat now delta d) = recurrings d"
  "logs (Budget_incSpent user cat now delta d) = logs d"
  "accounts (Budget_incSpent user cat now delta d) = accounts d"
  by (simp_all add: Budget_incSpent_def)

lemma applyRecurring_fields [simp]:
  "transactions (applyRecurring now user r d) = transactions d"
  "recurrings (applyRecurring now user r d) = recurrings d"
  "logs (applyRecurring now user r d) = logs d"
  by (simp_all add: applyRecurring_def)

lemma balanceOf_applyRecurring_transactions [simp]:
  "balanceOf (applyRecurring now user r (d\<lparr>transactions := m\<rparr>)) x =
     balanceOf (applyRecurring now user r d) x"
  by (cases "balanceOf d x") (simp_all add: applyRecurring_def balanceOf_incBalance)

lemma balanceOf_applyRecurring_expense:
  assumes "r_type r = Expense" and "r_fromAccount r = Some a"
  shows "balanceOf (applyRecurring now user r d) x =
           map_option (\<lambda>b. if a = x then roundDouble (b - r_amount r) else b) (balanceOf d x)"
  using assms
  by (cases "balanceOf d x") (auto simp: applyRecurring_def balanceOf_incBalance)

lemma balanceOf_applyRecurring_investment:
  "r_type r = Investment \<Longrightarrow> balanceOf (applyRecurring now user r d) x = balanceOf d x"
  by (simp add: applyRecurring_def)

lemma balanceOf_recurrings_update [simp]:
  "balanceOf (d\<lparr>recurrings := m\<rparr>) x = balanceOf d x"
  by (simp add: balanceOf_def)

lemma executeNow_Inr:
  assumes "Recurring_findOne d i user = Some r"
    and "Transaction_create d oid (transactionData now user r) = Inr (t, d1)"
  shows "executeNow d oid now user i =
           (Inr (Some t, advanceSchedule now r),
            (applyRecurring now user r d1)
              \<lparr>recurrings := (recurrings d)(i \<mapsto> advanceSchedule now r)\<rparr>)"
  using assms Transaction_create_Inr [OF assms(2)]
  by (simp add: executeNow_def Let_def)

lemma executeNow_accepted:
  assumes "executeNow d oid now user i = (Inr x, d')"
  shows "\<exists>r. recurrings d i = Some r \<and> snd x = advanceSchedule now r \<and>
             recurrings d' i = Some (advanceSchedule now r)"
  using assms
  by (auto simp: executeNow_def Let_def Recurring_findOne_def
           split: option.splits sum.splits if_splits)

lemma advanceSchedule_fields:
  "lastRunDate (advanceSchedule now r) = Some now"
  "nextRunDate (advanceSchedule now r) = calculateNextRunDate r"
  "totalExecutions (advanceSchedule now r) = totalExecutions r + 1"
  "maxExecutions (advanceSchedule now r) = maxExecutions r"
  by (simp_all add: advanceSchedule_def Let_def)

lemma advanceSchedule_isActive:
  "isActive (advanceSchedule now r) \<longleftrightarrow>
     isActive r \<and>
     (case maxExecutions r of None \<Rightarrow> True | Some m \<Rightarrow> m = 0 \<or> totalExecutions r + 1 < m)"
  by (auto simp: advanceSchedule_def Let_def split: option.splits)

lemma Transaction_create_ok:
  "validTransaction (applySetters doc) \<Longrightarrow> transactions d oid = None \<Longrightarrow>
   Transaction_create d oid doc =
     Inr (applySetters doc, d\<lparr>transactions := (transactions d)(oid \<mapsto> applySetters doc)\<rparr>)"
  by (simp add: Transaction_create_def Let_def)

lemma transactionData_advanceSchedule [simp]:
  "transactionData now user (advanceSchedule n r) = transactionData now user r"
  by (simp add: transactionData_def advanceSchedule_def Let_def)

lemma r_userId_advanceSchedule [simp]:
  "r_userId (advanceSchedule n r) = r_userId r"
  by (simp add: advanceSchedule_def Let_def)

lemma advanceSchedule_keeps [simp]:
  "r_type (advanceSchedule n r) = r_type r"
  "r_fromAccount (advanceSchedule n r) = r_fromAccount r"
  "r_toAccount (advanceSchedule n r) = r_toAccount r"
  "r_amount (advanceSchedule n r) = r_amount r"
  by (simp_all add: advanceSchedule_def Let_def)

lemma executeNow_step:
  assumes "recurrings d i = Some r" and "r_userId r = user"
    and "validTransaction (applySetters (transactionData now user r))"
    and "transactions d oid = None"
  shows "accepted (executeNow d oid now user i)"
    and "transactions (snd (executeNow d oid now user i)) =
           (transactions d)(oid \<mapsto> applySetters (transactionData now user r))"
    and "recurrings (snd (executeNow d oid now user i)) =
           (recurrings d)(i \<mapsto> advanceSchedule now r)"
    and "balanceOf (snd (executeNow d oid now user i)) x =
           balanceOf (applyRecurring now user r d) x"
proof -
  have f: "Recurring_findOne d i user = Some r"
    using assms(1,2) by (simp add: Recurring_findOne_def)
  note c = Transaction_create_ok [OF assms(3,4)]
  show "accepted (executeNow d oid now user i)"
    and "transactions (snd (executeNow d oid now user i)) =
           (transactions d)(oid \<mapsto> applySetters (transactionData now user r))"
    and "recurrings (snd (executeNow d oid now user i)) =
           (recurrings d)(i \<mapsto> advanceSchedule now r)"
    and "balanceOf (snd (executeNow d oid now user i)) x =
           balanceOf (applyRecurring now user r d) x"
    by (simp_all add: executeNow_Inr [OF f c])
qed

lemma example_valid:
  "validTransaction (applySetters (transactionData now 7 exampleRule))"
  "validTransaction (applySetters (transactionData now 7 (exampleRule\<lparr>r_fromAccount := Some 22\<rparr>)))"
  "validTransaction (applySetters (transactionData now 7 idleInvestmentRule))"
  by (simp_all add: validTransaction_def applySetters_def transactionData_def exampleRule_def
        spentRule_def idleInvestmentRule_def trim_def isWhiteSpace_def)

text \<open>
  C2. The execution of a recurring expense makes no balance check. Definition 5 pays 100
  from account 21, which holds 50: the execution is accepted, the transaction is stored,
  the balance becomes -50, and the schedule is advanced.
\<close>

theorem executeNow_overdraws:
  "accepted (executeNow exampleDb 31 jan31 7 5) \<and>
   transactions (snd (executeNow exampleDb 31 jan31 7 5)) 31 =
     Some (applySetters (transactionData jan31 7 exampleRule)) \<and>
   balanceOf exampleDb 21 = Some 50 \<and>
   balanceOf (snd (executeNow exampleDb 31 jan31 7 5)) 21 = Some (- 50) \<and>
   recurrings (snd (executeNow exampleDb 31 jan31 7 5)) 5 = Some (advanceSchedule jan31 exampleRule) \<and>
   lastRunDate (advanceSchedule jan31 exampleRule) = Some jan31 \<and>
   totalExecutions (advanceSchedule jan31 exampleRule) = 1"
proof -
  have r: "recurrings exampleDb 5 = Some exampleRule" "r_userId exampleRule = 7"
    "transactions exampleDb 31 = None"
    by (simp_all add: exampleDb_def exampleRule_def)
  note s = executeNow_step [OF r(1,2) example_valid(1) [of jan31] r(3)]
  have e: "r_type exampleRule = Expense" "r_fromAccount exampleRule = Some 21"
    "r_amount exampleRule = 100"
    by (simp_all add: exampleRule_def)
  have b: "balanceOf exampleDb 21 = Some 50"
    by (simp add: balanceOf_def exampleDb_def)
  show ?thesis
    using s(1)
    by (simp add: s(2,3,4) balanceOf_applyRecurring_expense [OF e(1,2)] e(3) b
          advanceSchedule_fields)
       (simp add: exampleRule_def)
qed

text \<open>
  Definition 6 is executed four times in a row. The third execution switches it to
  inactive; the fourth is accepted all the same.
\<close>

lemma four_runs:
  "accepted run1 \<and> accepted run2 \<and> accepted run3 \<and>
   map_option maxExecutions (recurrings (snd run3) 6) = Some (Some 3) \<and>
   map_option totalExecutions (recurrings (snd run3) 6) = Some 3 \<and>
   map_option isActive (recurrings (snd run3) 6) = Some False \<and>
   transactions (snd run3) 14 = None \<and>
   accepted run4 \<and>
   transactions (snd run4) 14 \<noteq> None \<and>
   map_option totalExecutions (recurrings (snd run4) 6) = Some 4 \<and>
   balanceOf (snd run3) 22 = Some 700 \<and>
   balanceOf (snd run4) 22 = Some 600"
proof -
  define R where "R = exampleRule\<lparr>r_fromAccount := Some 22\<rparr>"
  have v: "\<And>now. validTransaction (applySetters (transactionData now 7 R))"
    unfolding R_def by (rule example_valid(2))
  have R: "r_userId R = 7" "totalExecutions R = 0" "maxExecutions R = Some 3" "isActive R"
    by (simp_all add: R_def exampleRule_def)
  have e: "r_type R = Expense" "r_fromAccount R = Some 22" "r_amount R = 100"
    by (simp_all add: R_def exampleRule_def)
  have d0: "recurrings exampleDb 6 = Some R" "transactions exampleDb = Map.empty"
    "balanceOf exampleDb 22 = Some 1000"
    by (simp_all add: exampleDb_def R_def balanceOf_def)
  have t0: "transactions exampleDb 11 = None" by (simp add: d0)
  note s1 = executeNow_step [OF d0(1) R(1) v [of jan31] t0, folded run1_def]
  define R1 where "R1 = advanceSchedule jan31 R"
  have r1: "recurrings (snd run1) 6 = Some R1" "transactions (snd run1) 12 = None"
    "r_userId R1 = 7" "validTransaction (applySetters (transactionData jan31 7 R1))"
    by (simp_all add: s1 R1_def d0 R v)
  note s2 = executeNow_step [OF r1(1) r1(3) r1(4) r1(2), folded run2_def]
  define R2 where "R2 = advanceSchedule jan31 R1"
  have r2: "recurrings (snd run2) 6 = Some R2" "transactions (snd run2) 13 = None"
    "r_userId R2 = 7" "validTransaction (applySetters (transactionData jan31 7 R2))"
    by (simp_all add: s2 s1 R2_def R1_def d0 R v)
  note s3 = executeNow_step [OF r2(1) r2(3) r2(4) r2(2), folded run3_def]
  define R3 where "R3 = advanceSchedule jan31 R2"
  have r3: "recurrings (snd run3) 6 = Some R3" "transactions (snd run3) 14 = None"
    "r_userId R3 = 7" "validTransaction (applySetters (transactionData jan31 7 R3))"
    by (simp_all add: s3 s2 s1 R3_def R2_def R1_def d0 R v)
  note s4 = executeNow_step [OF r3(1) r3(3) r3(4) r3(2), folded run4_def]
  have f1: "totalExecutions R1 = 1" "maxExecutions R1 = Some 3"
    by (simp_all add: R1_def advanceSchedule_fields R)
  have f2: "totalExecutions R2 = 2" "maxExecutions R2 = Some 3"
    using f1 by (simp_all add: R2_def advanceSchedule_fields)
  have f3: "totalExecutions R3 = 3" "maxExecutions R3 = Some 3" "\<not> isActive R3"
    using f2 by (simp_all add: R3_def advanceSchedule_fields advanceSchedule_isActive)
  have e1: "r_type R1 = Expense" "r_fromAccount R1 = Some 22" "r_amount R1 = 100"
    by (simp_all add: R1_def e)
  have e2: "r_type R2 = Expense" "r_fromAccount R2 = Some 22" "r_amount R2 = 100"
    by (simp_all add: R2_def e1)
  have e3: "r_type R3 = Expense" "r_fromAccount R3 = Some 22" "r_amount R3 = 100"
    by (simp_all add: R3_def e2)
  have b1: "balanceOf (snd run1) 22 = Some 900"
    by (simp add: s1(4) balanceOf_applyRecurring_expense [OF e(1,2)] e(3) d0)
  have b2: "balanceOf (snd run2) 22 = Some 800"
    by (simp add: s2(4) balanceOf_applyRecurring_expense [OF e1(1,2)] e1(3) b1)
  have b3: "balanceOf (snd run3) 22 = Some 700"
    by (simp add: s3(4) balanceOf_applyRecurring_expense [OF e2(1,2)] e2(3) b2)
  have b4: "balanceOf (snd run4) 22 = Some 600"
    by (simp add: s4(4) balanceOf_applyRecurring_expense [OF e3(1,2)] e3(3) b3)
  show ?thesis
    using s1(1) s2(1) s3(1) s4(1) r3(2)
    by (simp add: r3(1) f3 s4(2,3) advanceSchedule_fields b3 b4)
qed

text \<open>
  C3, as the code has it. When a definition with a maximum of 3 and no execution so far is
  executed three times in a row, it stays active after the first and the second execution
  and is switched to inactive by the third; from then on \<^verbatim>\<open>shouldExecute\<close> refuses
  it at every time.
\<close>

theorem three_executions_deactivate:
  assumes "recurrings d0 i = Some r0" and "maxExecutions r0 = Some 3"
    and "totalExecutions r0 = 0" and "isActive r0"
    and e1: "executeNow d0 o1 n1 user i = (Inr x1, d1)"
    and e2: "executeNow d1 o2 n2 user i = (Inr x2, d2)"
    and e3: "executeNow d2 o3 n3 user i = (Inr x3, d3)"
  shows "isActive (snd x1) \<and> isActive (snd x2) \<and> \<not> isActive (snd x3) \<and>
         recurrings d3 i = Some (snd x3) \<and> totalExecutions (snd x3) = 3 \<and>
         (\<forall>now. \<not> shouldExecute now (snd x3))"
proof -
  from executeNow_accepted [OF e1] assms(1)
  have r1: "snd x1 = advanceSchedule n1 r0" "recurrings d1 i = Some (snd x1)" by auto
  from executeNow_accepted [OF e2] r1
  have r2: "snd x2 = advanceSchedule n2 (snd x1)" "recurrings d2 i = Some (snd x2)" by auto
  from executeNow_accepted [OF e3] r2
  have r3: "snd x3 = advanceSchedule n3 (snd x2)" "recurrings d3 i = Some (snd x3)" by auto
  have a1: "isActive (snd x1)" "totalExecutions (snd x1) = 1" "maxExecutions (snd x1) = Some 3"
    using assms(2-4) by (simp_all add: r1 advanceSchedule_fields advanceSchedule_isActive)
  have a2: "isActive (snd x2)" "totalExecutions (snd x2) = 2" "maxExecutions (snd x2) = Some 3"
    using a1 by (simp_all add: r2 advanceSchedule_fields advanceSchedule_isActive)
  have a3: "\<not> isActive (snd x3)" "totalExecutions (snd x3) = 3"
    using a2 by (simp_all add: r3 advanceSchedule_fields advanceSchedule_isActive)
  from a1 a2 a3 r3 show ?thesis by (simp add: shouldExecute_def)
qed


lemma accepted_eq:
  "accepted res \<Longrightarrow> res = (Inr (projr (fst res)), snd res)"
  by (cases res; cases "fst res") (simp_all add: accepted_def)

theorem three_executions_deactivate_witness:
  "isActive (snd (projr (fst run1))) \<and> isActive (snd (projr (fst run2))) \<and>
   \<not> isActive (snd (projr (fst run3))) \<and>
   recurrings (snd run3) 6 = Some (snd (projr (fst run3))) \<and>
   totalExecutions (snd (projr (fst run3))) = 3 \<and>
   (\<forall>now. \<not> shouldExecute now (snd (projr (fst run3))))"
proof -
  have r: "recurrings exampleDb 6 = Some (exampleRule\<lparr>r_fromAccount := Some 22\<rparr>)"
    "maxExecutions (exampleRule\<lparr>r_fromAccount := Some 22\<rparr>) = Some 3"
    "totalExecutions (exampleRule\<lparr>r_fromAccount := Some 22\<rparr>) = 0"
    "isActive (exampleRule\<lparr>r_fromAccount := Some 22\<rparr>)"
    by (simp_all add: exampleDb_def exampleRule_def)
  from four_runs have a: "accepted run1" "accepted run2" "accepted run3" by simp_all
  have e1: "executeNow exampleDb 11 jan31 7 6 = (Inr (projr (fst run1)), snd run1)"
    using accepted_eq [OF a(1)] by (simp add: run1_def)
  have e2: "executeNow (snd run1) 12 jan31 7 6 = (Inr (projr (fst run2)), snd run2)"
    using accepted_eq [OF a(2)] by (simp add: run2_def)
  have e3: "executeNow (snd run2) 13 jan31 7 6 = (Inr (projr (fst run3)), snd run3)"
    using accepted_eq [OF a(3)] by (simp add: run3_def)
  from three_executions_deactivate [OF r e1 e2 e3] show ?thesis .
qed

text \<open>
  C3, as the claim states it, fails at the fourth attempt: \<^verbatim>\<open>executeNow\<close> never
  consults \<^verbatim>\<open>shouldExecute\<close>. After three executions definition 6 is inactive with
  3 of 3 executions; the fourth execution is accepted, stores transaction 14, debits
  account 22 once more and counts a fourth execution.
\<close>

theorem fourth_execution_counterexample:
  "map_option isActive (recurrings (snd run3) 6) = Some False \<and>
   map_option totalExecutions (recurrings (snd run3) 6) = Some 3 \<and>
   transactions (snd run3) 14 = None \<and>
   balanceOf (snd run3) 22 = Some 700 \<and>
   accepted run4 \<and>
   transactions (snd run4) 14 \<noteq> None \<and>
   balanceOf (snd run4) 22 = Some 600 \<and>
   map_option totalExecutions (recurrings (snd run4) 6) = Some 4"
  using four_runs by simp

lemma idle_next_run:
  "calculateNextRunDate idleInvestmentRule = 1675728000000"
  by code_simp

lemma idle_note:
  "trim ''[Auto: rent] '' = ''[Auto: rent]''"
  by (simp add: trim_def isWhiteSpace_def)

text \<open>
  C10. \<^verbatim>\<open>executeNow\<close> looks at none of the eligibility conditions, but it does not
  apply the balance change of every type: it has no branch for an investment. Definition 9
  is a weekly investment of 100 from account 22 whose next run is 31 January 2023; it is
  inactive, paused, past its end date and at its maximum of 3 executions. Its execution at
  that instant is accepted all the same: it stores the transaction built from the
  definition, sets the last run to now, advances the next run by seven days to 7 February
  2023 and counts a fourth execution. The balance protocol takes the balance of account 22
  from 1000 to 900 for this investment; the execution leaves it at 1000.
\<close>

theorem executeNow_investment_no_debit:
  "recurrings exampleDb 9 = Some idleInvestmentRule \<and>
   r_type idleInvestmentRule = Investment \<and>
   r_fromAccount idleInvestmentRule = Some 22 \<and>
   r_amount idleInvestmentRule = 100 \<and>
   frequency idleInvestmentRule = Weekly \<and>
   nextRunDate idleInvestmentRule = 1675123200000 \<and>
   \<not> isActive idleInvestmentRule \<and>
   isPaused idleInvestmentRule \<and>
   endDate idleInvestmentRule = Some 0 \<and>
   maxExecutions idleInvestmentRule = Some 3 \<and>
   totalExecutions idleInvestmentRule = 3 \<and>
   jan31 = 1675123200000 \<and>
   transactions exampleDb = Map.empty \<and>
   balanceOf exampleDb 22 = Some 1000 \<and>
   accepted (executeNow exampleDb 31 jan31 7 9) \<and>
   transactions (snd (executeNow exampleDb 31 jan31 7 9)) =
     [31 \<mapsto>
        \<lparr>userId = 7, txType = Investment, fromAccount = Some 22, toAccount = None,
         amount = 100, category = ''housing'', paymentMode = BankTransfer,
         txNote = Some ''[Auto: rent]'', conversionRate = None, convertedAmount = None,
         fromCurrency = None, toCurrency = None, transactionDate = 1675123200000,
         tags = [], wasEdited = False, createdAt = 1675123200000\<rparr>] \<and>
   recurrings (snd (executeNow exampleDb 31 jan31 7 9)) 9 =
     Some (idleInvestmentRule\<lparr>lastRunDate := Some 1675123200000,
                               nextRunDate := 1675728000000,
                               totalExecutions := 4\<rparr>) \<and>
   map_option
     (protocolBalance (r_type idleInvestmentRule) (r_fromAccount idleInvestmentRule)
        (r_toAccount idleInvestmentRule) (r_amount idleInvestmentRule)
        (r_amount idleInvestmentRule) 22)
     (balanceOf exampleDb 22) = Some 900 \<and>
   balanceOf (snd (executeNow exampleDb 31 jan31 7 9)) 22 = Some 1000"
proof -
  have r: "recurrings exampleDb 9 = Some idleInvestmentRule" "r_userId idleInvestmentRule = 7"
    "transactions exampleDb 31 = None" "transactions exampleDb = Map.empty"
    "balanceOf exampleDb 22 = Some 1000"
    by (simp_all add: exampleDb_def idleInvestmentRule_def spentRule_def exampleRule_def
          balanceOf_def)
  note s = executeNow_step [OF r(1,2) example_valid(3) [of jan31] r(3)]
  have f: "r_type idleInvestmentRule = Investment" "r_fromAccount idleInvestmentRule = Some 22"
    "r_toAccount idleInvestmentRule = None"
    "r_amount idleInvestmentRule = 100" "frequency idleInvestmentRule = Weekly"
    "nextRunDate idleInvestmentRule = 1675123200000" "\<not> isActive idleInvestmentRule"
    "isPaused idleInvestmentRule" "endDate idleInvestmentRule = Some 0"
    "maxExecutions idleInvestmentRule = Some 3" "totalExecutions idleInvestmentRule = 3"
    by (simp_all add: idleInvestmentRule_def spentRule_def exampleRule_def jan31_def)
  have t: "applySetters (transactionData jan31 7 idleInvestmentRule) =
      \<lparr>userId = 7, txType = Investment, fromAccount = Some 22, toAccount = None,
       amount = 100, category = ''housing'', paymentMode = BankTransfer,
       txNote = Some ''[Auto: rent]'', conversionRate = None, convertedAmount = None,
       fromCurrency = None, toCurrency = None, transactionDate = 1675123200000,
       tags = [], wasEdited = False, createdAt = 1675123200000\<rparr>"
    by (simp add: applySetters_def transactionData_def idleInvestmentRule_def spentRule_def
          exampleRule_def jan31_def trim_def isWhiteSpace_def)
  have a: "advanceSchedule jan31 idleInvestmentRule =
      idleInvestmentRule\<lparr>lastRunDate := Some 1675123200000, nextRunDate := 1675728000000,
                          totalExecutions := 4\<rparr>"
    by (simp add: advanceSchedule_def Let_def idle_next_run f jan31_def)
  have p: "protocolBalance Investment (Some 22) None 100 100 22 1000 = 900"
    by (simp add: protocolBalance_def)
  show ?thesis
    using s(1)
    by (simp add: r f s(2,3,4) t a p balanceOf_applyRecurring_investment)
       (simp add: jan31_def)
qed

section \<open>Properties of amendments\<close>

lemma adjustBalances_fields [simp]:
  "transactions (snd (adjustBalances t body d)) = transactions d"
  "logs (snd (adjustBalances t body d)) = logs d"
  by (auto simp: adjustBalances_def Let_def incBalance_fields
           split: option.splits txn_type.splits)

lemma adjustBalances_funds:
  "fst (adjustBalances t body d) = None \<longleftrightarrow> fundsSuffice d t body"
  by (auto simp: adjustBalances_def fundsSuffice_def Let_def
           split: option.splits txn_type.splits)

lemma trim_Nil [simp]: "trim [] = []"
  by (simp add: trim_def)

lemma updateTransaction_no_reason:
  "u_reason body = None \<or> u_reason body = Some [] \<Longrightarrow>
     \<not> accepted (updateTransaction d now user i body) \<and>
     snd (updateTransaction d now user i body) = d"
  by (auto simp: updateTransaction_def split: option.splits)

lemma updateTransaction_ok:
  assumes f: "Transaction_findOne d i user = Some t"
    and r: "u_reason body = Some rsn" "trim rsn \<noteq> []" "length (trim rsn) \<le> 300"
    and v: "validUpdate body" and m: "fundsSuffice d t body"
  shows "accepted (updateTransaction d now user i body)"
proof -
  from r have ne: "rsn \<noteq> []" by auto
  from m obtain d1 where a: "adjustBalances t body d = (None, d1)"
    using adjustBalances_funds [of t body d] by (cases "adjustBalances t body d") auto
  from f have ti: "transactions d i = Some t"
    by (auto simp: Transaction_findOne_def split: option.splits if_splits)
  have td1: "transactions d1 i = Some t"
    using adjustBalances_fields(1) [of t body d] a ti by simp
  show ?thesis
    using f r ne v a td1
    by (simp add: updateTransaction_def Transaction_findByIdAndUpdate_def
          TransactionLog_create_def Let_def)
qed

lemma updateTransaction_accepted:
  assumes "accepted (updateTransaction d now user i body)"
  shows "\<exists>t rsn. transactions d i = Some t \<and> u_reason body = Some rsn \<and>
           transactions (snd (updateTransaction d now user i body)) i
             = Some (applyUpdates body t) \<and>
           logs (snd (updateTransaction d now user i body)) =
             logs d @ [\<lparr>l_transactionId = i, l_userId = user, oldData = t,
                         newData = applyUpdates body t, modifiedAt = now,
                         reason = trim rsn\<rparr>]"
proof -
  from assms obtain t where f: "Transaction_findOne d i user = Some t"
    by (auto simp: updateTransaction_def split: option.splits)
  then have ti: "transactions d i = Some t"
    by (auto simp: Transaction_findOne_def split: option.splits if_splits)
  from assms f obtain rsn where r: "u_reason body = Some rsn" "rsn \<noteq> []"
    by (auto simp: updateTransaction_def split: option.splits if_splits)
  obtain e d1 where a: "adjustBalances t body d = (e, d1)" by (cases "adjustBalances t body d")
  with assms f r have e: "e = None"
    by (auto simp: updateTransaction_def split: option.splits)
  have td1: "transactions d1 i = Some t" "logs d1 = logs d"
    using adjustBalances_fields [of t body d] a ti by simp_all
  from assms f r a e td1 show ?thesis
    by (auto simp: updateTransaction_def Transaction_findByIdAndUpdate_def
          TransactionLog_create_def Let_def ti split: if_splits)
qed

lemma trim_example: "trim '' typo '' = ''typo''" "trim ''typo'' = ''typo''"
  by (simp_all add: trim_def isWhiteSpace_def)

lemma ledger_facts:
  "Transaction_findOne ledgerDb 41 7 = Some exampleExpense"
  "Transaction_findOne ledgerDb 42 7 = Some exampleTransfer"
  "transactions ledgerDb 41 = Some exampleExpense"
  "transactions ledgerDb 42 = Some exampleTransfer"
  "logs ledgerDb = []"
  "balanceOf ledgerDb 21 = Some 50"
  "balanceOf ledgerDb 22 = Some 1000"
  by (simp_all add: Transaction_findOne_def ledgerDb_def exampleDb_def exampleExpense_def
        exampleTransfer_def balanceOf_def)

text \<open>
  C5, as the code has it. An amendment without a reason (undefined or empty) is rejected
  and changes nothing. An amendment of a transaction of the user's is accepted when the
  trimmed reason is not empty and has at most 300 characters, the update passes the
  validators, and the funds suffice. Every accepted amendment stores the updated
  transaction and appends exactly one log entry, whose old data is the transaction as it
  was, whose new data is the transaction as it is stored, and whose reason is the trimmed
  reason.
\<close>

theorem updateTransaction_audit:
  "(u_reason body = None \<or> u_reason body = Some [] \<longrightarrow>
      \<not> accepted (updateTransaction d now user i body) \<and>
      snd (updateTransaction d now user i body) = d) \<and>
   (\<forall>t rsn. Transaction_findOne d i user = Some t \<and> u_reason body = Some rsn \<and>
      trim rsn \<noteq> [] \<and> length (trim rsn) \<le> 300 \<and> validUpdate body \<and>
      fundsSuffice d t body \<longrightarrow>
      accepted (updateTransaction d now user i body)) \<and>
   (accepted (updateTransaction d now user i body) \<longrightarrow>
      (\<exists>t rsn. transactions d i = Some t \<and> u_reason body = Some rsn \<and>
         transactions (snd (updateTransaction d now user i body)) i
           = Some (applyUpdates body t) \<and>
         logs (snd (updateTransaction d now user i body)) =
           logs d @ [\<lparr>l_transactionId = i, l_userId = user, oldData = t,
                       newData = applyUpdates body t, modifiedAt = now,
                       reason = trim rsn\<rparr>]))"
  using updateTransaction_no_reason [of body d now user i]
    updateTransaction_ok [of d i user _ body _ now]
    updateTransaction_accepted [of d now user i body]
  by blast


theorem updateTransaction_audit_witness:
  "\<not> accepted (updateTransaction ledgerDb jan31 7 41 (smallAmend\<lparr>u_reason := None\<rparr>)) \<and>
   snd (updateTransaction ledgerDb jan31 7 41 (smallAmend\<lparr>u_reason := None\<rparr>)) = ledgerDb \<and>
   accepted (updateTransaction ledgerDb jan31 7 41 smallAmend) \<and>
   transactions (snd (updateTransaction ledgerDb jan31 7 41 smallAmend)) 41 =
     Some (exampleExpense\<lparr>amount := 40, wasEdited := True\<rparr>) \<and>
   logs (snd (updateTransaction ledgerDb jan31 7 41 smallAmend)) =
     [\<lparr>l_transactionId = 41, l_userId = 7, oldData = exampleExpense,
       newData = exampleExpense\<lparr>amount := 40, wasEdited := True\<rparr>,
       modifiedAt = jan31, reason = ''typo''\<rparr>]"
proof -
  have h: "u_reason smallAmend = Some '' typo ''" "validUpdate smallAmend"
    "fundsSuffice ledgerDb exampleExpense smallAmend"
    "applyUpdates smallAmend exampleExpense = exampleExpense\<lparr>amount := 40, wasEdited := True\<rparr>"
    by (simp_all add: smallAmend_def amendBody_def validUpdate_def fundsSuffice_def
          exampleExpense_def Account_findById_def ledgerDb_def exampleDb_def applyUpdates_def)
  have n: "u_reason (smallAmend\<lparr>u_reason := None\<rparr>) = None" by simp
  from updateTransaction_audit [of "smallAmend\<lparr>u_reason := None\<rparr>" ledgerDb jan31 7 41] n
  have p1: "\<not> accepted (updateTransaction ledgerDb jan31 7 41 (smallAmend\<lparr>u_reason := None\<rparr>)) \<and>
   snd (updateTransaction ledgerDb jan31 7 41 (smallAmend\<lparr>u_reason := None\<rparr>)) = ledgerDb"
    by blast
  note c = updateTransaction_audit [of smallAmend ledgerDb jan31 7 41]
  from c h ledger_facts(1) trim_example
  have p2: "accepted (updateTransaction ledgerDb jan31 7 41 smallAmend)"
    by auto
  with c h ledger_facts trim_example p1 show ?thesis by auto
qed

text \<open>
  C5, as the claim states it, fails: an amendment with a reason does not always succeed.
  Raising expense 41 from 30 to 150 needs 120 from account 21, which holds 50; the
  amendment is rejected for insufficient balance, and nothing is logged.
\<close>

theorem amend_with_reason_rejected_counterexample:
  "u_reason amendBody = Some ''typo'' \<and>
   fst (updateTransaction ledgerDb jan31 7 41 amendBody) = Inl InsufficientBalance \<and>
   snd (updateTransaction ledgerDb jan31 7 41 amendBody) = ledgerDb"
proof -
  have r: "u_reason amendBody = Some ''typo''" by (simp add: amendBody_def)
  have a: "adjustBalances exampleExpense amendBody ledgerDb = (Some InsufficientBalance, ledgerDb)"
    by (simp add: adjustBalances_def amendBody_def exampleExpense_def Account_findById_def
          ledgerDb_def exampleDb_def)
  show ?thesis by (simp add: updateTransaction_def ledger_facts(1) r a)
qed

text \<open>
  The log is written after the update. A reason of blanks passes the test for a missing
  reason, the amount of expense 41 is amended to 40 and account 21 is debited, and then the
  log refuses the trimmed, empty reason: the transaction is amended and no log exists.
\<close>

lemma blank_reason_amends_without_log:
  "u_reason (smallAmend\<lparr>u_reason := Some '' ''\<rparr>) = Some '' '' \<and>
   fst (updateTransaction ledgerDb jan31 7 41 (smallAmend\<lparr>u_reason := Some '' ''\<rparr>))
     = Inl ValidationFailed \<and>
   map_option amount
     (transactions (snd (updateTransaction ledgerDb jan31 7 41
        (smallAmend\<lparr>u_reason := Some '' ''\<rparr>))) 41) = Some 40 \<and>
   logs (snd (updateTransaction ledgerDb jan31 7 41 (smallAmend\<lparr>u_reason := Some '' ''\<rparr>)))
     = []"
proof -
  define body where "body = smallAmend\<lparr>u_reason := Some '' ''\<rparr>"
  have r: "u_reason body = Some '' ''" "validUpdate body" "'' '' \<noteq> []" "trim '' '' = []"
    "u_amount body = Some 40"
    by (simp_all add: body_def smallAmend_def amendBody_def validUpdate_def trim_def
          isWhiteSpace_def)
  have a: "adjustBalances exampleExpense body ledgerDb =
             (None, Account_incBalance (Some 21) (- 10) ledgerDb)"
    by (simp add: adjustBalances_def r exampleExpense_def Account_findById_def ledgerDb_def
          exampleDb_def Let_def)
  have u: "updateTransaction ledgerDb jan31 7 41 body =
      (Inl ValidationFailed,
       (Account_incBalance (Some 21) (- 10) ledgerDb)
         \<lparr>transactions := (transactions ledgerDb)(41 \<mapsto> applyUpdates body exampleExpense)\<rparr>)"
    by (simp add: updateTransaction_def ledger_facts r a Transaction_findByIdAndUpdate_def
          TransactionLog_create_def Let_def)
  show ?thesis
    unfolding body_def [symmetric]
    by (simp add: u r ledger_facts) (simp add: applyUpdates_def r)
qed

text \<open>
  C6. The amount of a transfer is amended without any change to a balance. Transfer 42
  moved 100 from account 22 to account 21; amending it to 150 is accepted and stores the
  new amount, and both accounts keep their balances. \<^verbatim>\<open>updateTransaction\<close> adjusts
  balances for income and expense only.
\<close>

theorem updateTransaction_transfer_keeps_balances:
  "map_option amount (transactions ledgerDb 42) = Some 100 \<and>
   accepted (updateTransaction ledgerDb jan31 7 42 amendBody) \<and>
   map_option amount (transactions (snd (updateTransaction ledgerDb jan31 7 42 amendBody)) 42)
     = Some 150 \<and>
   accounts (snd (updateTransaction ledgerDb jan31 7 42 amendBody)) = accounts ledgerDb \<and>
   balanceOf (snd (updateTransaction ledgerDb jan31 7 42 amendBody)) 22 = Some 1000 \<and>
   balanceOf (snd (updateTransaction ledgerDb jan31 7 42 amendBody)) 21 = Some 50"
proof -
  have a: "adjustBalances exampleTransfer amendBody ledgerDb = (None, ledgerDb)"
    by (simp add: adjustBalances_def amendBody_def exampleTransfer_def exampleExpense_def)
  have r: "u_reason amendBody = Some ''typo''" "validUpdate amendBody"
    by (simp_all add: amendBody_def validUpdate_def)
  have u: "updateTransaction ledgerDb jan31 7 42 amendBody =
      (Inr (Some (applyUpdates amendBody exampleTransfer)),
       ledgerDb\<lparr>transactions := (transactions ledgerDb)(42 \<mapsto> applyUpdates amendBody exampleTransfer),
                logs := logs ledgerDb @ [\<lparr>l_transactionId = 42, l_userId = 7, oldData = exampleTransfer,
                       newData = applyUpdates amendBody exampleTransfer, modifiedAt = jan31,
                       reason = ''typo''\<rparr>]\<rparr>)"
    by (simp add: updateTransaction_def ledger_facts a r Transaction_findByIdAndUpdate_def
          TransactionLog_create_def Let_def trim_example)
  show ?thesis
    by (simp add: u ledger_facts balanceOf_def [of "_\<lparr>transactions := _, logs := _\<rparr>"])
       (simp add: applyUpdates_def amendBody_def exampleTransfer_def exampleExpense_def
          balanceOf_def ledgerDb_def exampleDb_def)
qed


section \<open>Properties of the rate of return\<close>

lemma rnd_abs:
  assumes "\<forall>x. \<bar>rnd M x - x\<bar> \<le> \<bar>x\<bar> / 1000000000" and "\<bar>x\<bar> \<le> B"
  shows "\<bar>rnd M x - x\<bar> \<le> B / 1000000000"
proof -
  have "\<bar>rnd M x - x\<bar> \<le> \<bar>x\<bar> / 1000000000" using assms(1) by blast
  also have "\<dots> \<le> B / 1000000000" using assms(2) by (simp add: divide_right_mono)
  finally show ?thesis .
qed

lemma div_between:
  fixes n d :: real
  assumes "0 < d" and "lo * d \<le> n" and "n \<le> hi * d"
  shows "lo \<le> n / d \<and> n / d \<le> hi"
  using assms by (simp add: pos_le_divide_eq pos_divide_le_eq)

lemma div_between_neg:
  fixes n d :: real
  assumes "d < 0" and "hi * d \<le> n" and "n \<le> lo * d"
  shows "lo \<le> n / d \<and> n / d \<le> hi"
  using assms by (simp add: neg_le_divide_eq neg_divide_le_eq)

lemma newton_first_step:
  assumes H1: "\<forall>x. \<bar>rnd M x - x\<bar> \<le> \<bar>x\<bar> / 1000000000"
    and H2: "rnd M 1 = 1"
    and H3: "\<forall>b e. 0 < b \<longrightarrow> \<bar>Math_pow M b e - b powr e\<bar> \<le> (b powr e) / 1000000000"
  shows "\<exists>x. newton M [(- 1000, 0), (1100, 1)] (Suc n) (rnd M (1 / 10)) = Some x \<and>
             \<bar>x - 1 / 10\<bar> \<le> 1 / 100000"
proof -
  note R = rnd_abs [OF H1]
  have Z: "rnd M 0 = 0" using H1 [rule_format, of 0] by simp
  define g where "g = rnd M (1 / 10)"
  define base where "base = rnd M (1 + g)"
  define p0 where "p0 = Math_pow M base 0"
  define pv0 where "pv0 = rnd M (- 1000 / p0)"
  define npv1 where "npv1 = rnd M (0 + pv0)"
  define p1 where "p1 = Math_pow M base 1"
  define pv1 where "pv1 = rnd M (1100 / p1)"
  define npv2 where "npv2 = rnd M (npv1 + pv1)"
  define t where "t = rnd M (1 * pv1)"
  define q where "q = rnd M (t / base)"
  define dnpv2 where "dnpv2 = rnd M (0 - q)"
  define ratio where "ratio = rnd M (npv2 / dnpv2)"
  define newGuess where "newGuess = rnd M (g - ratio)"
  define diff where "diff = rnd M (newGuess - g)"
  define tol where "tol = rnd M (1 / 10000)"
  have g: "\<bar>g - 1 / 10\<bar> \<le> 1 / 1000000000"
    using R [of "1 / 10" 1] unfolding g_def by linarith
  have "\<bar>1 + g\<bar> \<le> 2" using g by linarith
  from R [OF this] g have base: "\<bar>base - 11 / 10\<bar> \<le> 1 / 100000000"
    unfolding base_def by linarith
  then have bpos: "0 < base" by linarith
  have "\<bar>p0 - 1\<bar> \<le> 1 / 1000000000"
    using H3 [rule_format, OF bpos, of 0] bpos by (simp add: p0_def)
  then have p0: "1 - 1 / 1000000000 \<le> p0" "p0 \<le> 1 + 1 / 1000000000" by linarith+
  then have p0pos: "0 < p0" by linarith
  have q0: "- 1000 - 1 / 100000 \<le> - 1000 / p0 \<and> - 1000 / p0 \<le> - 1000 + 1 / 100000"
    by (rule div_between [OF p0pos]) (use p0 in \<open>simp_all add: algebra_simps\<close>)
  then have "\<bar>- 1000 / p0\<bar> \<le> 1001" by linarith
  from R [OF this] q0 have pv0: "\<bar>pv0 + 1000\<bar> \<le> 2 / 100000"
    unfolding pv0_def by linarith
  then have "\<bar>0 + pv0\<bar> \<le> 1001" by linarith
  from R [OF this] pv0 have npv1: "\<bar>npv1 + 1000\<bar> \<le> 1 / 10000"
    unfolding npv1_def by linarith
  have "\<bar>p1 - base\<bar> \<le> base / 1000000000"
    using H3 [rule_format, OF bpos, of 1] bpos by (simp add: p1_def)
  with base have p1: "11 / 10 - 2 / 100000000 \<le> p1" "p1 \<le> 11 / 10 + 2 / 100000000"
    by linarith+
  then have p1pos: "0 < p1" by linarith
  have q1: "1000 - 1 / 10000 \<le> 1100 / p1 \<and> 1100 / p1 \<le> 1000 + 1 / 10000"
    by (rule div_between [OF p1pos]) (use p1 in \<open>simp_all add: algebra_simps\<close>)
  then have "\<bar>1100 / p1\<bar> \<le> 1001" by linarith
  from R [OF this] q1 have pv1: "\<bar>pv1 - 1000\<bar> \<le> 2 / 10000"
    unfolding pv1_def by linarith
  from npv1 pv1 have "\<bar>npv1 + pv1\<bar> \<le> 1" by linarith
  from R [OF this] npv1 pv1 have npv2: "\<bar>npv2\<bar> \<le> 4 / 10000"
    unfolding npv2_def by linarith
  from pv1 have "\<bar>1 * pv1\<bar> \<le> 1001" by linarith
  from R [OF this] pv1 have t: "\<bar>t - 1000\<bar> \<le> 2 / 100"
    unfolding t_def by linarith
  have tb: "909 \<le> t / base \<and> t / base \<le> 910"
    by (rule div_between [OF bpos]) (use t base in linarith)+
  then have "\<bar>t / base\<bar> \<le> 910" by linarith
  from R [OF this] tb have q: "908 \<le> q" "q \<le> 911"
    unfolding q_def by linarith+
  then have "\<bar>0 - q\<bar> \<le> 911" by linarith
  from R [OF this] q have dnpv2: "- 912 \<le> dnpv2" "dnpv2 \<le> - 907"
    unfolding dnpv2_def by linarith+
  then have dneg: "dnpv2 < 0" by linarith
  have rb: "- (1 / 1000000) \<le> npv2 / dnpv2 \<and> npv2 / dnpv2 \<le> 1 / 1000000"
    by (rule div_between_neg [OF dneg]) (use npv2 dnpv2 in linarith)+
  then have "\<bar>npv2 / dnpv2\<bar> \<le> 1" by linarith
  from R [OF this] rb have ratio: "\<bar>ratio\<bar> \<le> 2 / 1000000"
    unfolding ratio_def by linarith
  from g ratio have "\<bar>g - ratio\<bar> \<le> 1" by linarith
  from R [OF this] g ratio have ng: "\<bar>newGuess - g\<bar> \<le> 3 / 1000000"
    "\<bar>newGuess - 1 / 10\<bar> \<le> 4 / 1000000"
    unfolding newGuess_def by linarith+
  from ng have "\<bar>newGuess - g\<bar> \<le> 1" by linarith
  from R [OF this] ng have diff: "\<bar>diff\<bar> \<le> 4 / 1000000"
    unfolding diff_def by linarith
  have "\<bar>tol - 1 / 10000\<bar> \<le> 1 / 1000000000"
    using R [of "1 / 10000" 1] unfolding tol_def by linarith
  with diff have conv: "\<bar>diff\<bar> < tol" by linarith
  have y: "rnd M 0 = 0" by (rule Z)
  have nz: "p0 \<noteq> 0" "p1 \<noteq> 0" "base \<noteq> 0" "dnpv2 \<noteq> 0"
    using p0pos p1pos bpos dneg by simp_all
  have loop: "npvLoop M g [(- 1000, 0), (1100, 1)] 0 0 = Some (npv2, dnpv2)"
    using nz(1-3)
    unfolding npv2_def dnpv2_def q_def t_def npv1_def pv1_def pv0_def p1_def p0_def base_def
    by (simp add: Let_def Z)
  have "newton M [(- 1000, 0), (1100, 1)] (Suc n) g = Some newGuess"
    using nz(4) conv
    unfolding diff_def tol_def newGuess_def ratio_def
    by (simp add: loop Let_def del: npvLoop.simps)
  with ng show ?thesis unfolding g_def by auto
qed


text \<open>
  C9. Take a machine whose rounding and whose \<^verbatim>\<open>Math.pow\<close> have a relative error of
  at most one part in a thousand million (double precision is far more accurate) and which
  represents 1 exactly. For an investment that is not sold, whose only transaction is a buy
  of 1000 and whose current value is 1100 exactly 365 days after the buy,
  \<^verbatim>\<open>calculateXIRR\<close> returns a number, and it lies within 0.1 of 10 per cent. The
  iteration stops in its first round.
\<close>

theorem xirr_single_buy_one_year:
  assumes H1: "\<forall>x. \<bar>rnd M x - x\<bar> \<le> \<bar>x\<bar> / 1000000000"
    and H2: "rnd M 1 = 1"
    and H3: "\<forall>b e. 0 < b \<longrightarrow> \<bar>Math_pow M b e - b powr e\<bar> \<le> (b powr e) / 1000000000"
    and buy: "inv_transactions iv = [\<lparr>it_type = Buy, it_date = t0, it_amount = 1000\<rparr>]"
    and held: "inv_status iv \<noteq> Sold"
    and val: "currentValue iv = 1100"
    and year: "now = t0 + 31536000000"
  shows "\<exists>x. calculateXIRR M now iv = Some x \<and> \<bar>x - 10\<bar> \<le> 1 / 10"
proof -
  have Z: "rnd M 0 = 0" using H1 [rule_format, of 0] by simp
  from newton_first_step [OF H1 H2 H3, of 99]
  obtain r where r: "newton M [(- 1000, 0), (1100, 1)] (Suc 99) (rnd M (1 / 10)) = Some r"
    and rb: "\<bar>r - 1 / 10\<bar> \<le> 1 / 100000"
    by blast
  have v: "calculateXIRRValue M [- 1000, 1100] [t0, t0 + 31536000000] = Some r"
    using r by (simp add: calculateXIRRValue_def Z H2 del: newton.simps)
  have c: "calculateXIRR M now iv = Some (rnd M (r * 100))"
    using held by (simp add: calculateXIRR_def buy val year cashFlowOf_def v)
  from rb have "\<bar>r * 100\<bar> \<le> 11" by linarith
  from rnd_abs [OF H1 this] rb have "\<bar>rnd M (r * 100) - 10\<bar> \<le> 1 / 10" by linarith
  with c show ?thesis by simp
qed

lemma exact_newton:
  "newton exact [(- 1000, 0), (1100, 1)] (Suc n) (1 / 10) = Some (1 / 10)"
  by (simp add: exact_def Let_def)

lemma exact_run:
  "calculateXIRR exact (jan31 + 31536000000) exampleInvestment = Some 10"
proof -
  have s: "(100::nat) = Suc 99" by simp
  have "calculateXIRRValue exact [- 1000, 1100] [jan31, jan31 + 31536000000] = Some (1 / 10)"
    unfolding calculateXIRRValue_def s using exact_newton [of 99]
    by (simp add: exact_def del: newton.simps)
  then show ?thesis
    by (simp add: calculateXIRR_def exampleInvestment_def cashFlowOf_def exact_def)
qed


theorem xirr_single_buy_one_year_witness:
  "calculateXIRR exact (jan31 + 31536000000) exampleInvestment = Some 10 \<and>
   (\<exists>x. calculateXIRR exact (jan31 + 31536000000) exampleInvestment = Some x \<and>
        \<bar>x - 10\<bar> \<le> 1 / 10)"
proof -
  have h: "\<forall>x. \<bar>rnd exact x - x\<bar> \<le> \<bar>x\<bar> / 1000000000" "rnd exact 1 = 1"
    "\<forall>b e. 0 < b \<longrightarrow> \<bar>Math_pow exact b e - b powr e\<bar> \<le> (b powr e) / 1000000000"
    by (simp_all add: exact_def)
  have i: "inv_transactions exampleInvestment =
             [\<lparr>it_type = Buy, it_date = jan31, it_amount = 1000\<rparr>]"
    "inv_status exampleInvestment \<noteq> Sold" "currentValue exampleInvestment = 1100"
    by (simp_all add: exampleInvestment_def)
  from xirr_single_buy_one_year [OF h i refl] exact_run show ?thesis by blast
qed

end
